theory Spec2Isabelle
  imports Complex_Main
begin

section \<open>Python values and exceptions\<close>

text \<open>
  The library is Python. A value that may be \<^verbatim>\<open>None\<close> is an \<open>option\<close>; a function that
  may raise returns \<open>error + 'a\<close>, with \<open>Inl\<close> for the exception. The exceptions are the
  ones the two modules can raise themselves or through the built-ins they call:
  \<^verbatim>\<open>assert\<close> raises \<^verbatim>\<open>AssertionError\<close>, arithmetic on \<^verbatim>\<open>None\<close> raises \<^verbatim>\<open>TypeError\<close>, a date
  outside \<^verbatim>\<open>date.min .. date.max\<close> raises \<^verbatim>\<open>OverflowError\<close>, a missing dictionary key
  raises \<^verbatim>\<open>KeyError\<close>. The three classes of \<^verbatim>\<open>error.py\<close> subclass \<^verbatim>\<open>AssertionError\<close>
  and carry nothing; \<^verbatim>\<open>HTTPError\<close> is what \<^verbatim>\<open>Response.raise_for_status\<close> raises,
  \<^verbatim>\<open>RetryError\<close> and \<^verbatim>\<open>InvalidSchema\<close> are what \<^verbatim>\<open>session.request\<close> raises, and
  \<^verbatim>\<open>ConnectionError\<close> stands for a request that gets no response.
\<close>

datatype error =
    AssertionError
  | TypeError
  | ValueError
  | OverflowError
  | KeyError
  | AttributeError
  | RateLimitError
  | PayloadTooLargeError
  | AuthenticationError
  | HTTPError
  | ConnectionError
  | RetryError
  | InvalidSchema

text \<open>
  JSON-like Python values: what \<^verbatim>\<open>Response.json()\<close> decodes and \<^verbatim>\<open>json.dumps\<close> encodes.
  A dictionary is an association list in insertion order with distinct keys. Numbers are
  rationals: every Python \<^verbatim>\<open>int\<close> and every finite \<^verbatim>\<open>float\<close> is one (NaN and the
  infinities are left out).
\<close>

datatype pyval =
    PNone
  | PBool bool
  | PNum rat
  | PStr string
  | PList "pyval list"
  | PDict "(string \<times> pyval) list"

type_synonym pydict = "(string \<times> pyval) list"

text \<open>\<^verbatim>\<open>d.get(key)\<close>: the value, or \<^verbatim>\<open>None\<close> when the key is missing.\<close>

definition dict_get :: "pydict \<Rightarrow> string \<Rightarrow> pyval" where
  "dict_get d key = (case map_of d key of None \<Rightarrow> PNone | Some v \<Rightarrow> v)"

text \<open>\<^verbatim>\<open>d[key]\<close>: the value, or \<^verbatim>\<open>KeyError\<close>.\<close>

definition dict_item :: "pydict \<Rightarrow> string \<Rightarrow> error + pyval" where
  "dict_item d key = (case map_of d key of None \<Rightarrow> Inl KeyError | Some v \<Rightarrow> Inr v)"

text \<open>
  \<^verbatim>\<open>dict(d, key=value)\<close>: a copy of \<open>d\<close> in which \<open>key\<close> holds \<open>value\<close>; an existing key
  keeps its place, a new one goes last.
\<close>

fun dict_with :: "pydict \<Rightarrow> string \<Rightarrow> pyval \<Rightarrow> pydict" where
  "dict_with [] key v = [(key, v)]"
| "dict_with ((k, w) # d) key v = (if k = key then (k, v) # d else (k, w) # dict_with d key v)"

text \<open>\<^verbatim>\<open>len(v)\<close> and \<^verbatim>\<open>for part in v\<close> on a decoded JSON value.\<close>

fun py_len :: "pyval \<Rightarrow> error + nat" where
  "py_len (PList xs) = Inr (length xs)"
| "py_len (PStr s) = Inr (length s)"
| "py_len (PDict d) = Inr (length d)"
| "py_len _ = Inl TypeError"

fun py_iter :: "pyval \<Rightarrow> error + pyval list" where
  "py_iter (PList xs) = Inr xs"
| "py_iter (PStr s) = Inr (map (\<lambda>c. PStr [c]) s)"
| "py_iter (PDict d) = Inr (map (\<lambda>kv. PStr (fst kv)) d)"
| "py_iter _ = Inl TypeError"

section \<open>Dates (\<^verbatim>\<open>datetime.date\<close> and \<^verbatim>\<open>datetime.timedelta\<close>)\<close>

text \<open>
  A \<^verbatim>\<open>datetime.date\<close> is its proleptic Gregorian ordinal (\<^verbatim>\<open>date.toordinal()\<close>):
  \<^verbatim>\<open>date.min\<close> = 0001-01-01 is 1 and \<^verbatim>\<open>date.max\<close> = 9999-12-31 is 3652059. Adding a
  \<^verbatim>\<open>timedelta\<close> adds its days to the ordinal and raises \<^verbatim>\<open>OverflowError\<close> when the result
  leaves that range; subtracting adds the negated days. Dates compare by ordinal, and
  every date is truthy.
\<close>

type_synonym date = int

definition MINORDINAL :: int where
  "MINORDINAL = 1"

definition MAXORDINAL :: int where
  "MAXORDINAL = 3652059"

definition valid_date :: "date \<Rightarrow> bool" where
  "valid_date d = (MINORDINAL \<le> d \<and> d \<le> MAXORDINAL)"

text \<open>\<^verbatim>\<open>timedelta(weeks=w)\<close>, in days.\<close>

definition timedelta_weeks :: "int \<Rightarrow> int" where
  "timedelta_weeks w = 7 * w"

definition date_add :: "date \<Rightarrow> int \<Rightarrow> error + date" where
  "date_add d days =
     (let ordinal = d + days
      in if 0 < ordinal \<and> ordinal \<le> MAXORDINAL then Inr ordinal else Inl OverflowError)"

definition date_sub :: "date \<Rightarrow> int \<Rightarrow> error + date" where
  "date_sub d days = date_add d (- days)"

text \<open>
  The calendar of \<^verbatim>\<open>datetime\<close>: year, month and day of an ordinal and back, as the
  standard library computes them.
\<close>

definition is_leap :: "int \<Rightarrow> bool" where
  "is_leap year = (year mod 4 = 0 \<and> (year mod 100 \<noteq> 0 \<or> year mod 400 = 0))"

definition days_before_year :: "int \<Rightarrow> int" where
  "days_before_year year =
     (let y = year - 1 in y * 365 + y div 4 - y div 100 + y div 400)"

definition DAYS_IN_MONTH :: "int list" where
  "DAYS_IN_MONTH = [-1, 31, 28, 31, 30, 31, 30, 31, 31, 30, 31, 30, 31]"

definition DAYS_BEFORE_MONTH :: "int list" where
  "DAYS_BEFORE_MONTH = [-1, 0, 31, 59, 90, 120, 151, 181, 212, 243, 273, 304, 334]"

definition days_before_month :: "int \<Rightarrow> int \<Rightarrow> int" where
  "days_before_month year month =
     DAYS_BEFORE_MONTH ! nat month + (if month > 2 \<and> is_leap year then 1 else 0)"

definition ymd2ord :: "int \<Rightarrow> int \<Rightarrow> int \<Rightarrow> date" where
  "ymd2ord year month day = days_before_year year + days_before_month year month + day"

definition ord2ymd :: "date \<Rightarrow> int \<times> int \<times> int" where
  "ord2ymd ordinal =
     (let n = ordinal - 1;
          n400 = n div 146097; n = n mod 146097;
          year = n400 * 400 + 1;
          n100 = n div 36524; n = n mod 36524;
          n4 = n div 1461; n = n mod 1461;
          n1 = n div 365; n = n mod 365;
          year = year + n100 * 100 + n4 * 4 + n1
      in if n1 = 4 \<or> n100 = 4 then (year - 1, 12, 31)
         else
           let leapyear = (n1 = 3 \<and> (n4 \<noteq> 24 \<or> n100 = 3));
               month = (n + 50) div 32;
               preceding = DAYS_BEFORE_MONTH ! nat month + (if month > 2 \<and> leapyear then 1 else 0)
           in if preceding > n
              then
                let month = month - 1;
                    preceding = preceding -
                      (DAYS_IN_MONTH ! nat month + (if month = 2 \<and> leapyear then 1 else 0))
                in (year, month, n - preceding + 1)
              else (year, month, n - preceding + 1))"

text \<open>
  \<^verbatim>\<open>d.strftime(format)\<close>: CPython hands the format to the C library's \<^verbatim>\<open>strftime\<close>.
  \<^verbatim>\<open>%m\<close> and \<^verbatim>\<open>%d\<close> are the month and the day in two digits. \<^verbatim>\<open>%Y\<close> is the year in
  decimal, and whether a year below 1000 is padded to four digits depends on the
  platform: glibc does not pad (the year 1 is \<^verbatim>\<open>1\<close>, the year 999 is \<^verbatim>\<open>999\<close>), other
  libraries give \<^verbatim>\<open>0001\<close>. The platform is the parameter \<open>pads_year\<close>. Only the three
  directives of the library's format are modelled; every other character is copied.
\<close>

definition digit :: "nat \<Rightarrow> char" where
  "digit n = ''0123456789'' ! n"

fun decimal :: "nat \<Rightarrow> string" where
  "decimal n = (if n < 10 then [digit n] else decimal (n div 10) @ [digit (n mod 10)])"

definition zfill :: "nat \<Rightarrow> string \<Rightarrow> string" where
  "zfill width s = replicate (width - length s) (CHR ''0'') @ s"

definition directive :: "bool \<Rightarrow> char \<Rightarrow> int \<times> int \<times> int \<Rightarrow> string" where
  "directive pads_year c ymd =
     (case ymd of (year, month, day) \<Rightarrow>
        if c = CHR ''Y''
        then (if pads_year then zfill 4 (decimal (nat year)) else decimal (nat year))
        else if c = CHR ''m'' then zfill 2 (decimal (nat month))
        else if c = CHR ''d'' then zfill 2 (decimal (nat day))
        else [CHR ''%'', c])"

fun format_ymd :: "bool \<Rightarrow> string \<Rightarrow> int \<times> int \<times> int \<Rightarrow> string" where
  "format_ymd pads_year [] ymd = []"
| "format_ymd pads_year [c] ymd = [c]"
| "format_ymd pads_year (c # x # rest) ymd =
     (if c = CHR ''%'' then directive pads_year x ymd @ format_ymd pads_year rest ymd
      else c # format_ymd pads_year (x # rest) ymd)"

definition strftime :: "bool \<Rightarrow> string \<Rightarrow> date \<Rightarrow> string" where
  "strftime pads_year fmt d = format_ymd pads_year fmt (ord2ymd d)"

section \<open>\<^verbatim>\<open>range.py\<close>\<close>

definition DATE_FORMAT :: string where
  "DATE_FORMAT = ''%Y-%m-%d''"

text \<open>
  \<^verbatim>\<open>NumberRange = Tuple[Optional[float], Optional[float]]\<close> and
  \<^verbatim>\<open>DateRange = Tuple[Optional[datetime.date], Optional[datetime.date]]\<close>.
\<close>

type_synonym NumberRange = "rat option \<times> rat option"
type_synonym DateRange = "date option \<times> date option"

text \<open>
  Truthiness, which \<^verbatim>\<open>or\<close>, \<^verbatim>\<open>any\<close> and \<^verbatim>\<open>all\<close> test: \<^verbatim>\<open>None\<close> is falsy, a number is
  falsy when it is zero, a date is always truthy.
\<close>

definition truthy_number :: "rat \<Rightarrow> bool" where
  "truthy_number x = (x \<noteq> 0)"

definition truthy_date :: "date \<Rightarrow> bool" where
  "truthy_date d = True"

definition truthy_opt :: "('a \<Rightarrow> bool) \<Rightarrow> 'a option \<Rightarrow> bool" where
  "truthy_opt truthy x = (case x of None \<Rightarrow> False | Some v \<Rightarrow> truthy v)"

text \<open>
  \<^verbatim>\<open>first, second = first or second - year_offset, second or first + year_offset\<close>: the
  right-hand side is evaluated left to right on the old values, and the arithmetic of
  an operand that is \<^verbatim>\<open>None\<close> raises \<^verbatim>\<open>TypeError\<close>. The argument \<open>fmt\<close> is the method
  \<^verbatim>\<open>strftime\<close> of the dates, which is \<open>strftime pads_year\<close> on a platform.
\<close>

definition convert_date_range_to_string ::
  "(string \<Rightarrow> date \<Rightarrow> string) \<Rightarrow> DateRange option \<Rightarrow> error + string list option" where
  "convert_date_range_to_string fmt date_range =
     (case date_range of
        None \<Rightarrow> Inr None
      | Some (first, second) \<Rightarrow>
          let year_offset = timedelta_weeks 52 in
          (case (case first of
                   Some f \<Rightarrow> Inr f
                 | None \<Rightarrow> (case second of None \<Rightarrow> Inl TypeError | Some s \<Rightarrow> date_sub s year_offset)) of
             Inl e \<Rightarrow> Inl e
           | Inr first' \<Rightarrow>
               (case (case second of
                        Some s \<Rightarrow> Inr s
                      | None \<Rightarrow> (case first of None \<Rightarrow> Inl TypeError | Some f \<Rightarrow> date_add f year_offset)) of
                  Inl e \<Rightarrow> Inl e
                | Inr second' \<Rightarrow> Inr (Some [fmt DATE_FORMAT first', fmt DATE_FORMAT second']))))"

text \<open>\<^verbatim>\<open>first or None\<close>: the bound when it is truthy, \<^verbatim>\<open>None\<close> otherwise.\<close>

definition or_None :: "rat option \<Rightarrow> rat option" where
  "or_None x = (if truthy_opt truthy_number x then x else None)"

definition convert_number_range_to_string :: "NumberRange option \<Rightarrow> rat option list option" where
  "convert_number_range_to_string number_range =
     (case number_range of
        None \<Rightarrow> None
      | Some (first, second) \<Rightarrow> Some [or_None first, or_None second])"

text \<open>
  \<^verbatim>\<open>assert_data_range_is_valid\<close> takes a pair of numbers or of dates; the model takes the
  truthiness of the element type with it. A pair has length 2, so the first assertion
  holds; \<^verbatim>\<open>any\<close> and \<^verbatim>\<open>all\<close> test the truthiness of the two bounds.
\<close>

definition assert_data_range_is_valid ::
  "('a::linorder \<Rightarrow> bool) \<Rightarrow> 'a option \<times> 'a option \<Rightarrow> error + unit" where
  "assert_data_range_is_valid truthy data_range =
     (case data_range of (start, end) \<Rightarrow>
        if \<not> (truthy_opt truthy start \<or> truthy_opt truthy end) then Inl AssertionError
        else if truthy_opt truthy start \<and> truthy_opt truthy end
        then (case (start, end) of
                (Some s, Some e) \<Rightarrow> if e \<ge> s then Inr () else Inl AssertionError
              | _ \<Rightarrow> Inr ())
        else Inr ())"

section \<open>\<^verbatim>\<open>core.py\<close>: result objects and search properties\<close>

text \<open>
  \<^verbatim>\<open>OpenFIGIObject\<close>: thirteen fields, each a decoded value or \<^verbatim>\<open>None\<close>. The fields that
  share a name with a field of \<^verbatim>\<open>OpenFIGIProperties\<close> or with a HOL constant carry a prime.
\<close>

record OpenFIGIObject =
  figi :: pyval
  security_type' :: pyval
  security_type_2' :: pyval
  market_sector :: pyval
  exchange_code' :: pyval
  ticker :: pyval
  name' :: pyval
  id' :: pyval
  share_class_figi :: pyval
  composite_figi :: pyval
  security_description :: pyval
  future_or_option_id :: pyval
  metadata :: pyval

text \<open>
  \<^verbatim>\<open>from_figi_data\<close> passes eleven keyword arguments; \<^verbatim>\<open>ticker\<close> and \<^verbatim>\<open>metadata\<close> keep the
  dataclass default \<^verbatim>\<open>None\<close>.
\<close>

definition from_figi_data :: "pydict \<Rightarrow> OpenFIGIObject" where
  "from_figi_data data =
     \<lparr> figi = dict_get data ''figipy'',
       security_type' = dict_get data ''securityType'',
       security_type_2' = dict_get data ''securityType2'',
       market_sector = dict_get data ''marketSecDes'',
       exchange_code' = dict_get data ''exchCode'',
       ticker = PNone,
       name' = dict_get data ''name'',
       id' = dict_get data ''id'',
       share_class_figi = dict_get data ''shareClassFIGI'',
       composite_figi = dict_get data ''compositeFIGI'',
       security_description = dict_get data ''securityDescription'',
       future_or_option_id = dict_get data ''uniqueIDFutOpt'',
       metadata = PNone \<rparr>"

record OpenFIGIProperties =
  exchange_code :: "string option"
  mic_code :: "string option"
  currency :: "string option"
  market_sector_description :: "string option"
  security_type :: "string option"
  security_type_2 :: "string option"
  include_unlisted_equities :: "bool option"
  option_type :: "string option"
  strike :: "NumberRange option"
  contract_size :: "NumberRange option"
  coupon :: "NumberRange option"
  expiration :: "DateRange option"
  maturity :: "DateRange option"
  state_code :: "string option"

text \<open>\<^verbatim>\<open>OpenFIGIProperties()\<close>: every field at its default \<^verbatim>\<open>None\<close>.\<close>

definition no_properties :: OpenFIGIProperties where
  "no_properties =
     \<lparr> exchange_code = None, mic_code = None, currency = None,
       market_sector_description = None, security_type = None, security_type_2 = None,
       include_unlisted_equities = None, option_type = None, strike = None,
       contract_size = None, coupon = None, expiration = None, maturity = None,
       state_code = None \<rparr>"

text \<open>
  \<^verbatim>\<open>__post_init__\<close> runs when the dataclass is constructed. \<^verbatim>\<open>if self.expiration\<close> tests
  the truthiness of the field: \<^verbatim>\<open>None\<close> is falsy and a pair is truthy whatever it holds.
\<close>

definition post_init :: "OpenFIGIProperties \<Rightarrow> error + unit" where
  "post_init self =
     (case (case expiration self of
              None \<Rightarrow> Inr ()
            | Some r \<Rightarrow>
                if security_type_2 self = Some ''Option'' \<or> security_type_2 self = Some ''Warrant''
                then assert_data_range_is_valid truthy_date r
                else Inl AssertionError) of
        Inl e \<Rightarrow> Inl e
      | Inr u \<Rightarrow>
          (case maturity self of
             None \<Rightarrow> Inr ()
           | Some r \<Rightarrow>
               if security_type_2 self = Some ''Pool''
               then assert_data_range_is_valid truthy_date r
               else Inl AssertionError))"

text \<open>The constructor: the object, or the exception of \<^verbatim>\<open>__post_init__\<close>.\<close>

definition new_properties :: "OpenFIGIProperties \<Rightarrow> error + OpenFIGIProperties" where
  "new_properties self = (case post_init self of Inl e \<Rightarrow> Inl e | Inr u \<Rightarrow> Inr self)"

text \<open>The values of the dictionary \<^verbatim>\<open>as_filter\<close> builds, as Python values.\<close>

definition py_str :: "string option \<Rightarrow> pyval" where
  "py_str x = (case x of None \<Rightarrow> PNone | Some s \<Rightarrow> PStr s)"

definition py_bool :: "bool option \<Rightarrow> pyval" where
  "py_bool x = (case x of None \<Rightarrow> PNone | Some b \<Rightarrow> PBool b)"

definition py_num :: "rat option \<Rightarrow> pyval" where
  "py_num x = (case x of None \<Rightarrow> PNone | Some n \<Rightarrow> PNum n)"

definition py_num_list :: "rat option list option \<Rightarrow> pyval" where
  "py_num_list x = (case x of None \<Rightarrow> PNone | Some ns \<Rightarrow> PList (map py_num ns))"

definition py_str_list :: "string list option \<Rightarrow> pyval" where
  "py_str_list x = (case x of None \<Rightarrow> PNone | Some ss \<Rightarrow> PList (map PStr ss))"

text \<open>
  \<^verbatim>\<open>as_filter\<close>: the dictionary literal is evaluated in order (so the conversion of
  \<^verbatim>\<open>expiration\<close> raises before that of \<^verbatim>\<open>maturity\<close>), then the comprehension keeps the
  items whose value is not \<^verbatim>\<open>None\<close>.
\<close>

definition as_filter ::
  "(string \<Rightarrow> date \<Rightarrow> string) \<Rightarrow> OpenFIGIProperties \<Rightarrow> error + pydict" where
  "as_filter fmt self =
     (case convert_date_range_to_string fmt (expiration self) of
        Inl e \<Rightarrow> Inl e
      | Inr expiration_strings \<Rightarrow>
          (case convert_date_range_to_string fmt (maturity self) of
             Inl e \<Rightarrow> Inl e
           | Inr maturity_strings \<Rightarrow>
               Inr (filter (\<lambda>(key, value). value \<noteq> PNone)
                 [ (''exchCode'', py_str (exchange_code self)),
                   (''micCode'', py_str (mic_code self)),
                   (''currency'', py_str (currency self)),
                   (''marketSecDes'', py_str (market_sector_description self)),
                   (''securityType'', py_str (security_type self)),
                   (''securityType2'', py_str (security_type_2 self)),
                   (''includeUnlistedEquities'', py_bool (include_unlisted_equities self)),
                   (''optionType'', py_str (option_type self)),
                   (''strike'', py_num_list (convert_number_range_to_string (strike self))),
                   (''contractSize'', py_num_list (convert_number_range_to_string (contract_size self))),
                   (''coupon'', py_num_list (convert_number_range_to_string (coupon self))),
                   (''expiration'', py_str_list expiration_strings),
                   (''maturity'', py_str_list maturity_strings),
                   (''stateCode'', py_str (state_code self)) ])))"

section \<open>\<^verbatim>\<open>core.py\<close>: the client\<close>

datatype MappingValues =
    ID_TYPE
  | EXCHANGE_CODE
  | MIC_CODE
  | CURRENCY
  | MARKET_SECTOR_DESCRIPTION
  | SECURITY_TYPE
  | SECURITY_TYPE_2
  | STATE_CODE

fun mapping_value :: "MappingValues \<Rightarrow> string" where
  "mapping_value ID_TYPE = ''idType''"
| "mapping_value EXCHANGE_CODE = ''exchCode''"
| "mapping_value MIC_CODE = ''micCode''"
| "mapping_value CURRENCY = ''currency''"
| "mapping_value MARKET_SECTOR_DESCRIPTION = ''marketSecDes''"
| "mapping_value SECURITY_TYPE = ''securityType''"
| "mapping_value SECURITY_TYPE_2 = ''securityType2''"
| "mapping_value STATE_CODE = ''stateCode''"

text \<open>
  The class attributes of \<^verbatim>\<open>OpenFIGIApi\<close>, read from the environment when the class is
  created: they are a parameter of the constructor's model.
\<close>

record class_defaults =
  API_KEY :: "string option"
  API_URL :: string
  API_RAISE_ON_ERROR :: bool
  API_RETRY_COUNT :: int

record OpenFIGIApi =
  raise_on_error :: bool
  api_retry_count :: int
  api_key :: "string option"
  api_url :: string

text \<open>
  \<^verbatim>\<open>argument or default\<close>: the argument when it is truthy, the default otherwise.
  \<^verbatim>\<open>None\<close>, \<^verbatim>\<open>False\<close>, \<^verbatim>\<open>0\<close> and the empty string are falsy.
\<close>

definition truthy_bool :: "bool \<Rightarrow> bool" where
  "truthy_bool b = b"

definition truthy_int :: "int \<Rightarrow> bool" where
  "truthy_int n = (n \<noteq> 0)"

definition truthy_str :: "string \<Rightarrow> bool" where
  "truthy_str s = (s \<noteq> [])"

definition py_or :: "('a \<Rightarrow> bool) \<Rightarrow> 'a option \<Rightarrow> 'a \<Rightarrow> 'a" where
  "py_or truthy x fallback = (case x of None \<Rightarrow> fallback | Some v \<Rightarrow> if truthy v then v else fallback)"

definition init ::
  "class_defaults \<Rightarrow> bool option \<Rightarrow> string option \<Rightarrow> string option \<Rightarrow> int option \<Rightarrow> OpenFIGIApi" where
  "init cls raise_on_error_arg api_key_arg api_url_arg api_retry_count_arg =
     \<lparr> raise_on_error = py_or truthy_bool raise_on_error_arg (API_RAISE_ON_ERROR cls),
       api_retry_count = py_or truthy_int api_retry_count_arg (API_RETRY_COUNT cls),
       api_key = (if truthy_opt truthy_str api_key_arg then api_key_arg else API_KEY cls),
       api_url = py_or truthy_str api_url_arg (API_URL cls) \<rparr>"

text \<open>
  The HTTP transport is the libraries \<^verbatim>\<open>requests\<close> and \<^verbatim>\<open>urllib3\<close> (1.x, which has the
  \<^verbatim>\<open>method_whitelist\<close> argument the client passes), modelled as far as the client
  configures them.

  A request is what \<^verbatim>\<open>session.request\<close> is called with; a response is its status code
  and its decoded JSON body, an object. The network is the list of responses the service
  will give, in order, and the log of the requests sent: one entry for each response
  consumed, and one for a request that finds no response left, which raises
  \<^verbatim>\<open>ConnectionError\<close>. Responses are final (no redirect is followed) and carry no
  \<^verbatim>\<open>Retry-After\<close> header. The URL is one that \<^verbatim>\<open>requests\<close> accepts when it prepares the
  request, with a scheme and a host and no white space before it; the check it makes
  there is not modelled.
\<close>

record http_request =
  req_method :: string
  req_url :: string
  req_data :: pyval
  req_headers :: "(string \<times> string) list"

record http_response =
  status_code :: int
  json :: pydict

record network =
  responses :: "http_response list"
  sent :: "http_request list"

text \<open>
  \<^verbatim>\<open>Retry\<close>, with the three settings that matter here. \<^verbatim>\<open>raise_on_status\<close> is not passed
  by the client and has the default \<^verbatim>\<open>True\<close>; \<^verbatim>\<open>method_whitelist=False\<close> makes every
  method retryable; the backoff is time and is left out. The adapter of a fresh session
  has \<^verbatim>\<open>Retry(0, read=False)\<close>, which retries no status.
\<close>

record Retry =
  retry_total :: int
  status_forcelist :: "int list"
  raise_on_status :: bool

definition default_retry :: Retry where
  "default_retry = \<lparr>retry_total = 0, status_forcelist = [], raise_on_status = True\<rparr>"

text \<open>
  A session is its adapters by URL prefix, in the order of the dictionary
  \<^verbatim>\<open>session.adapters\<close>; an adapter is its \<^verbatim>\<open>max_retries\<close>. \<^verbatim>\<open>requests.Session()\<close> mounts
  an adapter on \<^verbatim>\<open>https://\<close> and one on \<^verbatim>\<open>http://\<close>. \<^verbatim>\<open>mount\<close> stores the adapter under
  the prefix (an existing key keeps its place) and then moves every shorter prefix to
  the end.
\<close>

record session =
  adapters :: "(string \<times> Retry) list"

definition Session :: session where
  "Session = \<lparr>adapters = [(''https://'', default_retry), (''http://'', default_retry)]\<rparr>"

definition mount :: "string \<Rightarrow> Retry \<Rightarrow> session \<Rightarrow> session" where
  "mount prefix adapter s =
     (let stored =
            (if prefix \<in> set (map fst (adapters s))
             then map (\<lambda>(k, a). if k = prefix then (k, adapter) else (k, a)) (adapters s)
             else adapters s @ [(prefix, adapter)])
      in \<lparr>adapters = filter (\<lambda>(k, a). \<not> length k < length prefix) stored @
                      filter (\<lambda>(k, a). length k < length prefix) stored\<rparr>)"

text \<open>\<^verbatim>\<open>str.lower\<close> on ASCII, and \<^verbatim>\<open>str.startswith\<close>.\<close>

definition lower_char :: "char \<Rightarrow> char" where
  "lower_char c =
     (case map_of (zip ''ABCDEFGHIJKLMNOPQRSTUVWXYZ'' ''abcdefghijklmnopqrstuvwxyz'') c of
        None \<Rightarrow> c
      | Some l \<Rightarrow> l)"

definition lower :: "string \<Rightarrow> string" where
  "lower s = map lower_char s"

definition startswith :: "string \<Rightarrow> string \<Rightarrow> bool" where
  "startswith s prefix = (take (length prefix) s = prefix)"

text \<open>
  \<^verbatim>\<open>get_adapter\<close>: the first adapter whose prefix the URL starts with, both in lower
  case; \<^verbatim>\<open>InvalidSchema\<close> when there is none.
\<close>

fun get_adapter :: "(string \<times> Retry) list \<Rightarrow> string \<Rightarrow> error + Retry" where
  "get_adapter [] url = Inl InvalidSchema"
| "get_adapter ((prefix, adapter) # rest) url =
     (if startswith (lower url) (lower prefix) then Inr adapter else get_adapter rest url)"

text \<open>
  \<^verbatim>\<open>urlopen\<close> under a \<^verbatim>\<open>Retry\<close>: a response whose status is in \<^verbatim>\<open>status_forcelist\<close> is
  retried. \<^verbatim>\<open>increment\<close> takes one from \<^verbatim>\<open>total\<close>, and the retries are exhausted when
  that is below zero; then \<^verbatim>\<open>MaxRetryError\<close> is raised if \<^verbatim>\<open>raise_on_status\<close> holds,
  which \<^verbatim>\<open>requests\<close> turns into \<^verbatim>\<open>RetryError\<close>, and otherwise the response is returned.
  A retry sends the request again and gets the next response.
\<close>

fun urlopen ::
  "Retry \<Rightarrow> http_request \<Rightarrow> http_response list \<Rightarrow> http_request list \<Rightarrow>
   (error + http_response) \<times> network" where
  "urlopen retries r [] history = (Inl ConnectionError, \<lparr>responses = [], sent = history @ [r]\<rparr>)"
| "urlopen retries r (x # xs) history =
     (if status_code x \<in> set (status_forcelist retries)
      then (if retry_total retries - 1 < 0
            then (if raise_on_status retries then Inl RetryError else Inr x,
                  \<lparr>responses = xs, sent = history @ [r]\<rparr>)
            else urlopen (retries\<lparr>retry_total := retry_total retries - 1\<rparr>) r xs (history @ [r]))
      else (Inr x, \<lparr>responses = xs, sent = history @ [r]\<rparr>))"

definition session_request :: "session \<Rightarrow> http_request \<Rightarrow> network \<Rightarrow> (error + http_response) \<times> network" where
  "session_request s r net =
     (case get_adapter (adapters s) (req_url r) of
        Inl e \<Rightarrow> (Inl e, net)
      | Inr retries \<Rightarrow> urlopen retries r (responses net) (sent net))"

text \<open>\<^verbatim>\<open>create_session\<close>: a fresh session with the retrying adapter mounted on \<^verbatim>\<open>https://\<close>.\<close>

definition create_session :: "OpenFIGIApi \<Rightarrow> session" where
  "create_session self =
     mount ''https://''
       \<lparr>retry_total = api_retry_count self, status_forcelist = [429], raise_on_status = True\<rparr>
       Session"

text \<open>
  \<^verbatim>\<open>Response.raise_for_status\<close> raises for a status from 400 to 599, and \<^verbatim>\<open>Response.ok\<close>
  is true when it does not raise.
\<close>

definition response_ok :: "http_response \<Rightarrow> bool" where
  "response_ok response = (\<not> (400 \<le> status_code response \<and> status_code response < 600))"

definition request_headers :: "OpenFIGIApi \<Rightarrow> (string \<times> string) list" where
  "request_headers self =
     [(''Content-Type'', ''application/json'')] @
     (case api_key self of
        None \<Rightarrow> []
      | Some k \<Rightarrow> if truthy_str k then [(''X-OPENFIGI-APIKEY'', k)] else [])"

text \<open>
  \<^verbatim>\<open>_perform_request\<close>; the log messages are left out. An exception of
  \<^verbatim>\<open>session.request\<close> is not caught, whatever \<^verbatim>\<open>raise_on_error\<close> is.
\<close>

definition perform_request ::
  "OpenFIGIApi \<Rightarrow> string \<Rightarrow> string \<Rightarrow> pyval \<Rightarrow> session option \<Rightarrow> network \<Rightarrow>
   (error + pydict) \<times> network" where
  "perform_request self url method data session net =
     (let session = (case session of None \<Rightarrow> create_session self | Some s \<Rightarrow> s)
      in case session_request session
                \<lparr>req_method = method, req_url = url, req_data = data,
                 req_headers = request_headers self\<rparr> net of
           (Inl e, net') \<Rightarrow> (Inl e, net')
         | (Inr response, net') \<Rightarrow>
             (if status_code response = 429 \<and> raise_on_error self then Inl RateLimitError
              else if status_code response = 413 \<and> raise_on_error self then Inl PayloadTooLargeError
              else if status_code response = 403 \<and> raise_on_error self then Inl AuthenticationError
              else if raise_on_error self \<and> \<not> response_ok response then Inl HTTPError
              else if response_ok response then Inr (json response)
              else Inr [],
              net'))"

text \<open>
  A generator is modelled by what a \<^verbatim>\<open>for\<close> loop over it does: the loop body \<open>consume\<close>
  runs on each part as it is yielded, and an exception of the body ends the loop (and
  the generator) there. The result is the list of the body's results, the exception
  that ended the iteration if there was one, and the network afterwards.
\<close>

fun for_each :: "('a \<Rightarrow> error + 'b) \<Rightarrow> 'a list \<Rightarrow> 'b list \<times> error option" where
  "for_each consume [] = ([], None)"
| "for_each consume (x # xs) =
     (case consume x of
        Inl e \<Rightarrow> ([], Some e)
      | Inr y \<Rightarrow> (case for_each consume xs of (ys, raised) \<Rightarrow> (y # ys, raised)))"

lemma urlopen_consumes:
  "urlopen retries r rs history = (Inr response, net') \<Longrightarrow> length (responses net') < length rs"
proof (induction rs arbitrary: retries history)
  case Nil
  then show ?case by simp
next
  case (Cons x xs)
  show ?case
  proof (cases "status_code x \<in> set (status_forcelist retries) \<and> \<not> retry_total retries - 1 < 0")
    case True
    with Cons.prems
    have "urlopen (retries\<lparr>retry_total := retry_total retries - 1\<rparr>) r xs (history @ [r]) = (Inr response, net')"
      by simp
    then have "length (responses net') < length xs"
      by (rule Cons.IH)
    then show ?thesis by simp
  next
    case False
    with Cons.prems show ?thesis by (auto split: if_splits)
  qed
qed

lemma perform_request_consumes:
  "perform_request self url method data session net = (Inr response, net') \<Longrightarrow>
   length (responses net') < length (responses net)"
  by (auto simp: perform_request_def session_request_def Let_def
      split: sum.splits prod.splits if_splits dest: urlopen_consumes)

text \<open>The \<^verbatim>\<open>while\<close> loop of \<^verbatim>\<open>_perform_pagination_request\<close>, entered with a response.\<close>

function pagination_loop ::
  "OpenFIGIApi \<Rightarrow> string \<Rightarrow> string \<Rightarrow> pydict \<Rightarrow> session \<Rightarrow> (pyval \<Rightarrow> error + 'b) \<Rightarrow> pydict \<Rightarrow> network \<Rightarrow>
   'b list \<times> error option \<times> network" where
  "pagination_loop self url method data session consume response net =
     (case map_of response ''data'' of
        None \<Rightarrow> ([], None, net)
      | Some d \<Rightarrow>
          (case py_len d of
             Inl e \<Rightarrow> ([], Some e, net)
           | Inr n \<Rightarrow>
               if n = 0 then ([], None, net)
               else
                 (case py_iter d of
                    Inl e \<Rightarrow> ([], Some e, net)
                  | Inr parts \<Rightarrow>
                      (case for_each consume parts of
                         (ys, Some e) \<Rightarrow> (ys, Some e, net)
                       | (ys, None) \<Rightarrow>
                           (case map_of response ''next'' of
                              None \<Rightarrow> (ys, None, net)
                            | Some cursor \<Rightarrow>
                                (case perform_request self url method
                                        (PDict (dict_with data ''start'' cursor)) (Some session) net of
                                   (Inl e, net') \<Rightarrow> (ys, Some e, net')
                                 | (Inr response', net') \<Rightarrow>
                                     (case pagination_loop self url method data session consume response' net' of
                                        (zs, raised, net'') \<Rightarrow> (ys @ zs, raised, net''))))))))"
  by pat_completeness auto
termination pagination_loop
  by (relation "measure (\<lambda>(self, url, method, data, session, consume, response, net). length (responses net))")
     (auto dest: perform_request_consumes [OF sym])

declare pagination_loop.simps [simp del]

definition perform_pagination_request ::
  "OpenFIGIApi \<Rightarrow> string \<Rightarrow> string \<Rightarrow> pydict \<Rightarrow> (pyval \<Rightarrow> error + 'b) \<Rightarrow> network \<Rightarrow>
   'b list \<times> error option \<times> network" where
  "perform_pagination_request self url method data consume net =
     (let session = create_session self
      in case perform_request self url method (PDict data) (Some session) net of
           (Inl e, net') \<Rightarrow> ([], Some e, net')
         | (Inr response, net') \<Rightarrow> pagination_loop self url method data session consume response net')"

text \<open>
  \<^verbatim>\<open>search\<close>: the loop body maps each part with \<^verbatim>\<open>from_figi_data\<close>, whose \<^verbatim>\<open>data.get\<close>
  raises \<^verbatim>\<open>AttributeError\<close> on a part that is not a dictionary.
\<close>

definition figi_object :: "pyval \<Rightarrow> error + OpenFIGIObject" where
  "figi_object part = (case part of PDict d \<Rightarrow> Inr (from_figi_data d) | _ \<Rightarrow> Inl AttributeError)"

definition search ::
  "(string \<Rightarrow> date \<Rightarrow> string) \<Rightarrow> OpenFIGIApi \<Rightarrow> string \<Rightarrow> OpenFIGIProperties option \<Rightarrow> network \<Rightarrow>
   OpenFIGIObject list \<times> error option \<times> network" where
  "search fmt self query properties net =
     (let properties = (case properties of None \<Rightarrow> no_properties | Some p \<Rightarrow> p)
      in case as_filter fmt properties of
           Inl e \<Rightarrow> ([], Some e, net)
         | Inr filter_dict \<Rightarrow>
             perform_pagination_request self (api_url self @ ''/v2/search/'') ''POST''
               (dict_with filter_dict ''query'' (PStr query)) figi_object net)"

definition mapping_values ::
  "OpenFIGIApi \<Rightarrow> MappingValues option \<Rightarrow> network \<Rightarrow> (error + pyval) \<times> network" where
  "mapping_values self vals net =
     (case vals of
        None \<Rightarrow> (Inl ValueError, net)
      | Some v \<Rightarrow>
          (case perform_request self (api_url self @ ''/v2/mapping/values/'' @ mapping_value v)
                  ''GET'' PNone None net of
             (Inl e, net') \<Rightarrow> (Inl e, net')
           | (Inr response, net') \<Rightarrow> (dict_item response ''values'', net')))"

section \<open>Definitions for the statements\<close>

text \<open>
  \<^verbatim>\<open>OpenFIGIProperties(...).as_filter()\<close>: the constructor runs first, so its exception is
  the result and \<^verbatim>\<open>as_filter\<close> is never reached.
\<close>

definition new_filter :: "(string \<Rightarrow> date \<Rightarrow> string) \<Rightarrow> OpenFIGIProperties \<Rightarrow> error + pydict" where
  "new_filter fmt self = (case new_properties self of Inl e \<Rightarrow> Inl e | Inr p \<Rightarrow> as_filter fmt p)"

text \<open>The keys \<^verbatim>\<open>from_figi_data\<close> reads, and the keys \<^verbatim>\<open>as_filter\<close> writes.\<close>

definition figi_keys :: "string list" where
  "figi_keys = [''figipy'', ''securityType'', ''securityType2'', ''marketSecDes'', ''exchCode'',
     ''name'', ''id'', ''shareClassFIGI'', ''compositeFIGI'', ''securityDescription'', ''uniqueIDFutOpt'']"

definition wire_keys :: "string list" where
  "wire_keys = [''exchCode'', ''micCode'', ''currency'', ''marketSecDes'', ''securityType'',
     ''securityType2'', ''includeUnlistedEquities'', ''optionType'', ''strike'', ''contractSize'',
     ''coupon'', ''expiration'', ''maturity'', ''stateCode'']"

text \<open>The dictionary literal of \<^verbatim>\<open>as_filter\<close>, before the comprehension filters it.\<close>

definition filter_items ::
  "OpenFIGIProperties \<Rightarrow> string list option \<Rightarrow> string list option \<Rightarrow> pydict" where
  "filter_items self es ms =
                 [ (''exchCode'', py_str (exchange_code self)),
                   (''micCode'', py_str (mic_code self)),
                   (''currency'', py_str (currency self)),
                   (''marketSecDes'', py_str (market_sector_description self)),
                   (''securityType'', py_str (security_type self)),
                   (''securityType2'', py_str (security_type_2 self)),
                   (''includeUnlistedEquities'', py_bool (include_unlisted_equities self)),
                   (''optionType'', py_str (option_type self)),
                   (''strike'', py_num_list (convert_number_range_to_string (strike self))),
                   (''contractSize'', py_num_list (convert_number_range_to_string (contract_size self))),
                   (''coupon'', py_num_list (convert_number_range_to_string (coupon self))),
                   (''expiration'', py_str_list es),
                   (''maturity'', py_str_list ms),
                   (''stateCode'', py_str (state_code self)) ]"

text \<open>
  A date as a \<^verbatim>\<open>YYYY-MM-DD\<close> string: the year in four digits, the month and the day in
  two. The rendering of the specification is this string when the year has four digits
  or the platform pads it; a year below 1000 on a platform that does not pad is written
  with the digits it has.
\<close>

definition year :: "date \<Rightarrow> int" where
  "year d = fst (ord2ymd d)"

definition iso_date :: "date \<Rightarrow> string" where
  "iso_date d =
     (case ord2ymd d of (y, m, dd) \<Rightarrow>
        zfill 4 (decimal (nat y)) @ ''-'' @ zfill 2 (decimal (nat m)) @ ''-'' @ zfill 2 (decimal (nat dd)))"

definition short_year_date :: "date \<Rightarrow> string" where
  "short_year_date d =
     (case ord2ymd d of (y, m, dd) \<Rightarrow>
        decimal (nat y) @ ''-'' @ zfill 2 (decimal (nat m)) @ ''-'' @ zfill 2 (decimal (nat dd)))"

definition rendered :: "bool \<Rightarrow> date \<Rightarrow> string" where
  "rendered pads_year d = (if pads_year \<or> 1000 \<le> year d then iso_date d else short_year_date d)"

text \<open>
  The properties of an option, as in \<^verbatim>\<open>test_core.py\<close>: 2020-12-11 is ordinal 737770.
\<close>

definition option_example :: OpenFIGIProperties where
  "option_example = no_properties\<lparr>security_type_2 := Some ''Option'',
     contract_size := Some (Some 100, None), expiration := Some (Some 737770, None)\<rparr>"

text \<open>
  The URLs a session of \<^verbatim>\<open>create_session\<close> has an adapter for: the \<^verbatim>\<open>https\<close> ones, which get
  the retrying adapter, and the \<^verbatim>\<open>http\<close> ones, which get the one of a fresh session.
\<close>

definition retrying :: "OpenFIGIApi \<Rightarrow> Retry" where
  "retrying self =
     \<lparr>retry_total = api_retry_count self, status_forcelist = [429], raise_on_status = True\<rparr>"

definition secure :: "string \<Rightarrow> bool" where
  "secure url = startswith (lower url) ''https://''"

definition mounted :: "string \<Rightarrow> bool" where
  "mounted url = (startswith (lower url) ''https://'' \<or> startswith (lower url) ''http://'')"

text \<open>
  The pagination protocol in the specification's words. A page is a response body with
  an optional \<^verbatim>\<open>data\<close> list and an optional \<^verbatim>\<open>next\<close> cursor, answered with status 200.
  A page continues the iteration when its \<^verbatim>\<open>data\<close> is present and non-empty and its
  \<^verbatim>\<open>next\<close> is present; the pages read are the continuing ones and the first that does
  not continue; the requests made are the first one and one more for each continuing
  page, the original body with \<^verbatim>\<open>start\<close> set to its cursor.
\<close>

record page =
  page_data :: "pyval list option"
  page_next :: "pyval option"

definition page_json :: "page \<Rightarrow> pydict" where
  "page_json p =
     (case page_data p of None \<Rightarrow> [] | Some xs \<Rightarrow> [(''data'', PList xs)]) @
     (case page_next p of None \<Rightarrow> [] | Some cursor \<Rightarrow> [(''next'', cursor)])"

definition page_response :: "page \<Rightarrow> http_response" where
  "page_response p = \<lparr>status_code = 200, json = page_json p\<rparr>"

definition page_items :: "page \<Rightarrow> pyval list" where
  "page_items p = (case page_data p of None \<Rightarrow> [] | Some xs \<Rightarrow> xs)"

definition continues :: "page \<Rightarrow> bool" where
  "continues p = (page_items p \<noteq> [] \<and> page_next p \<noteq> None)"

definition pages_read :: "page list \<Rightarrow> page list" where
  "pages_read ps = takeWhile continues ps @ take 1 (dropWhile continues ps)"

definition make_request :: "OpenFIGIApi \<Rightarrow> string \<Rightarrow> string \<Rightarrow> pydict \<Rightarrow> http_request" where
  "make_request self url method data =
     \<lparr>req_method = method, req_url = url, req_data = PDict data, req_headers = request_headers self\<rparr>"

definition next_request :: "OpenFIGIApi \<Rightarrow> string \<Rightarrow> string \<Rightarrow> pydict \<Rightarrow> page \<Rightarrow> http_request" where
  "next_request self url method data p =
     make_request self url method
       (case page_next p of None \<Rightarrow> data | Some cursor \<Rightarrow> dict_with data ''start'' cursor)"

definition requests_made :: "OpenFIGIApi \<Rightarrow> string \<Rightarrow> string \<Rightarrow> pydict \<Rightarrow> page list \<Rightarrow> http_request list" where
  "requests_made self url method data ps =
     make_request self url method data # map (next_request self url method data) (takeWhile continues ps)"

definition example_api :: OpenFIGIApi where
  "example_api = \<lparr>raise_on_error = False, api_retry_count = 2, api_key = None,
     api_url = ''https://api.openfigi.com''\<rparr>"

definition example_pages :: "page list" where
  "example_pages =
     [\<lparr>page_data = Some [PStr ''a'', PStr ''b''], page_next = Some (PStr ''c1'')\<rparr>,
      \<lparr>page_data = Some [PStr ''c''], page_next = None\<rparr>,
      \<lparr>page_data = Some [PStr ''d''], page_next = None\<rparr>]"

section \<open>Properties of the range functions\<close>

lemmas strftime_defs =
  strftime_def directive_def zfill_def digit_def ord2ymd_def DAYS_BEFORE_MONTH_def DAYS_IN_MONTH_def Let_def

text \<open>
  The ordinals of the dates used below: the dates of the repository's tests, and the
  first and the last date.
\<close>

lemma calendar_examples:
  "ymd2ord 2020 11 12 = 737741 \<and> ymd2ord 2020 12 11 = 737770
   \<and> ymd2ord 9999 12 31 = 3652059 \<and> ymd2ord 1 1 1 = 1
   \<and> ord2ymd 737741 = (2020, 11, 12) \<and> ord2ymd 3652059 = (9999, 12, 31) \<and> ord2ymd 1 = (1, 1, 1)"
  by (simp add: ymd2ord_def days_before_year_def days_before_month_def is_leap_def ord2ymd_def
      DAYS_BEFORE_MONTH_def DAYS_IN_MONTH_def Let_def)

lemma range_check_cases:
  "assert_data_range_is_valid truthy r = Inl AssertionError \<or> assert_data_range_is_valid truthy r = Inr ()"
  by (auto simp: assert_data_range_is_valid_def split: option.splits prod.splits)

text \<open>
  The validity check on numbers: it fails exactly when neither bound is truthy, or both
  are and the upper one is smaller. A bound of 0 is falsy, as \<^verbatim>\<open>None\<close> is.
\<close>

lemma number_range_check:
  "assert_data_range_is_valid truthy_number (a, b) = Inl AssertionError \<longleftrightarrow>
     (\<not> truthy_opt truthy_number a \<and> \<not> truthy_opt truthy_number b)
     \<or> (\<exists>x y. a = Some x \<and> b = Some y \<and> x \<noteq> 0 \<and> y \<noteq> 0 \<and> y < x)"
  by (auto simp: assert_data_range_is_valid_def truthy_opt_def truthy_number_def split: option.splits)

text \<open>On dates, where every present bound is truthy, it is the check of the specification.\<close>

lemma date_range_check:
  "assert_data_range_is_valid truthy_date (a, b) = Inl AssertionError \<longleftrightarrow>
     (a = None \<and> b = None) \<or> (\<exists>x y. a = Some x \<and> b = Some y \<and> y < x)"
  by (auto simp: assert_data_range_is_valid_def truthy_opt_def truthy_date_def split: option.splits)

lemma number_range_rendering:
  "convert_number_range_to_string (Some (a, b)) =
     Some [if a = Some 0 then None else a, if b = Some 0 then None else b]"
  by (auto simp: convert_number_range_to_string_def or_None_def truthy_opt_def truthy_number_def
      split: option.splits)

declare decimal.simps [simp del]

lemma decimal_numeral [simp]:
  "decimal (numeral k) =
     (if (numeral k :: nat) < 10 then [digit (numeral k)]
      else decimal (numeral k div 10) @ [digit (numeral k mod 10)])"
  by (rule decimal.simps)

lemma decimal_small [simp]: "decimal 0 = ''0''" "decimal (Suc 0) = ''1''"
  by (simp_all add: decimal.simps [of 0] decimal.simps [of "Suc 0"] digit_def)

lemma decimal_not_empty: "decimal n \<noteq> []"
  by (subst decimal.simps) simp

lemma decimal_four_digits: "1000 \<le> n \<Longrightarrow> 4 \<le> length (decimal n)"
proof -
  assume n: "1000 \<le> n"
  have "decimal n = decimal (n div 10) @ [digit (n mod 10)]"
    using n by (subst decimal.simps) simp
  moreover have "decimal (n div 10) = decimal (n div 10 div 10) @ [digit (n div 10 mod 10)]"
    using n by (subst decimal.simps) simp
  moreover have "decimal (n div 10 div 10) =
      decimal (n div 10 div 10 div 10) @ [digit (n div 10 div 10 mod 10)]"
    using n by (subst decimal.simps) simp
  ultimately show ?thesis
    using decimal_not_empty [of "n div 10 div 10 div 10"] by (simp add: Suc_le_eq)
qed

lemma zfill_four_digits: "1000 \<le> y \<Longrightarrow> zfill 4 (decimal (nat y)) = decimal (nat y)"
  using decimal_four_digits [of "nat y"] by (simp add: zfill_def)

text \<open>The library's format, applied to a date.\<close>

lemma strftime_date_format:
  "strftime p ''%Y-%m-%d'' d = rendered p d"
  using zfill_four_digits [of "fst (ord2ymd d)"]
  by (cases "ord2ymd d")
     (auto simp: strftime_def rendered_def iso_date_def short_year_date_def directive_def year_def)

text \<open>
  Claim C2. A date range with one bound gets the other one 364 days away, and both are
  rendered as \<^verbatim>\<open>YYYY-MM-DD\<close> strings; a range with both bounds is rendered as it is. As
  stated, for every date, the claim fails in two ways. 9999-12-31 is a date (ordinal
  3652059) and has no date 364 days later, and 0001-01-01 (ordinal 1) has none 364 days
  earlier: the conversion raises \<^verbatim>\<open>OverflowError\<close> there. And where the C library does not
  pad the year (glibc), a year below 1000 is not written in four digits: the range that
  starts on 0001-12-31 (ordinal 365) is rendered \<^verbatim>\<open>['1-12-31', '2-12-30']\<close>.
\<close>

theorem date_range_overflow:
  "valid_date 3652059
   \<and> convert_date_range_to_string (strftime False) (Some (Some 3652059, None)) = Inl OverflowError
   \<and> convert_date_range_to_string (strftime True) (Some (Some 3652059, None)) = Inl OverflowError
   \<and> valid_date 1
   \<and> convert_date_range_to_string (strftime False) (Some (None, Some 1)) = Inl OverflowError
   \<and> convert_date_range_to_string (strftime True) (Some (None, Some 1)) = Inl OverflowError
   \<and> valid_date 365 \<and> ord2ymd 365 = (1, 12, 31) \<and> ord2ymd (365 + 364) = (2, 12, 30)
   \<and> convert_date_range_to_string (strftime False) (Some (Some 365, None)) =
       Inr (Some [''1-12-31'', ''2-12-30''])"
  by (simp add: valid_date_def MINORDINAL_def MAXORDINAL_def convert_date_range_to_string_def
      timedelta_weeks_def date_add_def date_sub_def DATE_FORMAT_def strftime_defs)

text \<open>
  Claim C2, amended. For every date range with exactly one bound present whose missing
  bound, 364 days from the present one, is a date from 0001-01-01 to 9999-12-31, the
  conversion returns the two bounds, the missing one at exactly 364 days. Each bound is
  rendered as a \<^verbatim>\<open>YYYY-MM-DD\<close> string when its year is at least 1000 or the platform pads
  the year to four digits, and with the unpadded year otherwise. When the missing bound
  is no date the conversion raises \<^verbatim>\<open>OverflowError\<close>. A range with both bounds present is
  rendered unchanged, each bound likewise. This holds on both kinds of platform.
\<close>

theorem date_range_normalized:
  "(valid_date d \<and> valid_date (d + 364) \<longrightarrow>
      convert_date_range_to_string (strftime p) (Some (Some d, None)) =
        Inr (Some [rendered p d, rendered p (d + 364)]))
   \<and> (valid_date d \<and> valid_date (d - 364) \<longrightarrow>
      convert_date_range_to_string (strftime p) (Some (None, Some d)) =
        Inr (Some [rendered p (d - 364), rendered p d]))
   \<and> (valid_date d \<and> \<not> valid_date (d + 364) \<longrightarrow>
      convert_date_range_to_string (strftime p) (Some (Some d, None)) = Inl OverflowError)
   \<and> (valid_date d \<and> \<not> valid_date (d - 364) \<longrightarrow>
      convert_date_range_to_string (strftime p) (Some (None, Some d)) = Inl OverflowError)
   \<and> convert_date_range_to_string (strftime p) (Some (Some a, Some b)) =
        Inr (Some [rendered p a, rendered p b])
   \<and> (p \<or> 1000 \<le> year d \<longrightarrow> rendered p d = iso_date d)
   \<and> (\<not> p \<and> year d < 1000 \<longrightarrow> rendered p d = short_year_date d)"
  by (auto simp: valid_date_def MINORDINAL_def MAXORDINAL_def convert_date_range_to_string_def
      timedelta_weeks_def date_add_def date_sub_def DATE_FORMAT_def Let_def strftime_date_format
      rendered_def)

text \<open>
  The date ranges of \<^verbatim>\<open>test_date_range_to_string\<close>, where 2020-11-12 is ordinal 737741,
  the first and the last date, and a date of the year 1 on both kinds of platform.
\<close>

theorem date_range_normalized_witness:
  "convert_date_range_to_string (strftime False) (Some (Some 737741, None)) = Inr (Some [''2020-11-12'', ''2021-11-11''])
   \<and> convert_date_range_to_string (strftime False) (Some (None, Some 737741)) = Inr (Some [''2019-11-14'', ''2020-11-12''])
   \<and> convert_date_range_to_string (strftime False) (Some (Some 737741, Some 737741)) = Inr (Some [''2020-11-12'', ''2020-11-12''])
   \<and> iso_date 737741 = ''2020-11-12''
   \<and> convert_date_range_to_string (strftime False) (Some (Some 3652059, None)) = Inl OverflowError
   \<and> convert_date_range_to_string (strftime False) (Some (None, Some 1)) = Inl OverflowError
   \<and> convert_date_range_to_string (strftime True) (Some (Some 365, None)) = Inr (Some [''0001-12-31'', ''0002-12-30''])
   \<and> convert_date_range_to_string (strftime False) (Some (Some 365, None)) = Inr (Some [''1-12-31'', ''2-12-30''])
   \<and> short_year_date 365 = ''1-12-31''"
proof -
  have z: "replicate 3 (CHR ''0'') = ''000''"
    by (simp add: numeral_3_eq_3)
  have r: "rendered False 737741 = ''2020-11-12''" "rendered False 738105 = ''2021-11-11''"
    "rendered False 737377 = ''2019-11-14''" "iso_date 737741 = ''2020-11-12''"
    "rendered True 365 = ''0001-12-31''" "rendered True 729 = ''0002-12-30''"
    "rendered False 365 = ''1-12-31''" "rendered False 729 = ''2-12-30''"
    "short_year_date 365 = ''1-12-31''"
    by (simp_all add: rendered_def year_def iso_date_def short_year_date_def zfill_def digit_def
        ord2ymd_def DAYS_BEFORE_MONTH_def DAYS_IN_MONTH_def Let_def z)
  show ?thesis
    using date_range_normalized [of 737741 False 737741 737741]
      date_range_normalized [of 3652059 False 3652059 3652059]
      date_range_normalized [of 1 False 1 1]
      date_range_normalized [of 365 True 365 365]
      date_range_normalized [of 365 False 365 365]
    by (simp add: valid_date_def MINORDINAL_def MAXORDINAL_def r)
qed

text \<open>
  Claim C3. The claim has the validity check succeed on every pair with a present bound
  unless both are present and the upper one is smaller, a bound of 0 included. The code
  tests truthiness with \<^verbatim>\<open>any\<close> and \<^verbatim>\<open>all\<close>, and 0 is falsy: \<^verbatim>\<open>(0, None)\<close> and \<^verbatim>\<open>(0, 0)\<close>
  fail, and \<^verbatim>\<open>(5, 0)\<close>, whose upper bound is smaller, passes.
\<close>

theorem range_check_zero_bound:
  "assert_data_range_is_valid truthy_number (Some 0, None) = Inl AssertionError
   \<and> assert_data_range_is_valid truthy_number (Some 0, Some 0) = Inl AssertionError
   \<and> assert_data_range_is_valid truthy_number (Some 5, Some 0) = Inr ()"
  by (simp add: assert_data_range_is_valid_def truthy_opt_def truthy_number_def)

text \<open>
  Claim C4. The claim has a numeric range rendered unchanged, a bound of 0 as 0. The code
  renders \<^verbatim>\<open>first or None\<close>: \<^verbatim>\<open>(0, 5)\<close> becomes \<^verbatim>\<open>[None, 5]\<close>, while \<^verbatim>\<open>(100, None)\<close> is
  \<^verbatim>\<open>[100, None]\<close> as claimed.
\<close>

theorem number_range_zero_bound:
  "convert_number_range_to_string (Some (Some 0, Some 5)) = Some [None, Some 5]
   \<and> convert_number_range_to_string (Some (Some 100, None)) = Some [Some 100, None]"
  by (simp add: convert_number_range_to_string_def or_None_def truthy_opt_def truthy_number_def)

section \<open>Properties of the search properties and the result objects\<close>

text \<open>
  Claim C5. The claim has every range property validated when the filter is constructed.
  \<^verbatim>\<open>__post_init__\<close> validates \<^verbatim>\<open>expiration\<close> and \<^verbatim>\<open>maturity\<close> only: a \<^verbatim>\<open>strike\<close> with both
  bounds absent and a \<^verbatim>\<open>coupon\<close> whose upper bound is smaller are constructed and
  rendered.
\<close>

theorem numeric_ranges_not_validated:
  "new_properties (no_properties\<lparr>strike := Some (None, None)\<rparr>) = Inr (no_properties\<lparr>strike := Some (None, None)\<rparr>)
   \<and> as_filter (strftime False) (no_properties\<lparr>strike := Some (None, None)\<rparr>) = Inr [(''strike'', PList [PNone, PNone])]
   \<and> new_properties (no_properties\<lparr>coupon := Some (Some 5, Some 3)\<rparr>) = Inr (no_properties\<lparr>coupon := Some (Some 5, Some 3)\<rparr>)
   \<and> as_filter (strftime False) (no_properties\<lparr>coupon := Some (Some 5, Some 3)\<rparr>) = Inr [(''coupon'', PList [PNum 5, PNum 3])]"
  by (simp add: new_properties_def post_init_def no_properties_def as_filter_def
      convert_date_range_to_string_def convert_number_range_to_string_def or_None_def
      truthy_opt_def truthy_number_def py_str_def py_bool_def py_num_def py_num_list_def py_str_list_def)

text \<open>
  Claim C7. Constructing the properties with \<^verbatim>\<open>expiration\<close> set fails with
  \<^verbatim>\<open>AssertionError\<close> unless the security subtype is \<^verbatim>\<open>Option\<close> or \<^verbatim>\<open>Warrant\<close>, and with
  \<^verbatim>\<open>maturity\<close> set unless it is \<^verbatim>\<open>Pool\<close>; the failure is the constructor's, so no wire
  mapping is produced from such properties.
\<close>

theorem subtype_checked_at_construction:
  "(expiration self \<noteq> None \<and> security_type_2 self \<noteq> Some ''Option'' \<and> security_type_2 self \<noteq> Some ''Warrant''
      \<longrightarrow> new_properties self = Inl AssertionError \<and> new_filter fmt self = Inl AssertionError)
   \<and> (maturity self \<noteq> None \<and> security_type_2 self \<noteq> Some ''Pool''
      \<longrightarrow> new_properties self = Inl AssertionError \<and> new_filter fmt self = Inl AssertionError)"
proof -
  have exp: "new_properties self = Inl AssertionError"
    if "expiration self \<noteq> None" "security_type_2 self \<noteq> Some ''Option''" "security_type_2 self \<noteq> Some ''Warrant''"
    using that by (auto simp: new_properties_def post_init_def split: option.splits)
  have mat: "new_properties self = Inl AssertionError"
    if "maturity self \<noteq> None" "security_type_2 self \<noteq> Some ''Pool''"
  proof (cases "expiration self")
    case None
    with that show ?thesis by (auto simp: new_properties_def post_init_def split: option.splits)
  next
    case (Some r)
    show ?thesis
      using that Some range_check_cases [of truthy_date r]
      by (auto simp: new_properties_def post_init_def split: option.splits)
  qed
  show ?thesis using exp mat by (auto simp: new_filter_def)
qed

theorem subtype_checked_at_construction_witness:
  "new_properties (no_properties\<lparr>security_type_2 := Some ''Pool'', expiration := Some (Some 737741, None)\<rparr>) = Inl AssertionError
   \<and> new_filter (strftime False) (no_properties\<lparr>security_type_2 := Some ''Pool'', expiration := Some (Some 737741, None)\<rparr>) = Inl AssertionError
   \<and> new_properties (no_properties\<lparr>maturity := Some (None, Some 737741)\<rparr>) = Inl AssertionError
   \<and> new_filter (strftime False) (no_properties\<lparr>maturity := Some (None, Some 737741)\<rparr>) = Inl AssertionError"
  using subtype_checked_at_construction
    [of "no_properties\<lparr>security_type_2 := Some ''Pool'', expiration := Some (Some 737741, None)\<rparr>" "strftime False"]
    subtype_checked_at_construction [of "no_properties\<lparr>maturity := Some (None, Some 737741)\<rparr>" "strftime False"]
  by (simp add: no_properties_def)

text \<open>
  Claim C10. The object \<^verbatim>\<open>from_figi_data\<close> builds from an item \<open>d\<close> takes \<^verbatim>\<open>figi\<close> from the
  key \<^verbatim>\<open>figipy\<close> (so it is \<^verbatim>\<open>None\<close> when \<open>d\<close> has no such key, whatever else it holds) and
  each other mapped field from its wire key; \<^verbatim>\<open>ticker\<close> and \<^verbatim>\<open>metadata\<close> are \<^verbatim>\<open>None\<close> for
  every item; and nothing else of \<open>d\<close> reaches the object: two items that agree on the
  eleven keys give the same object.
\<close>

theorem from_figi_data_table:
  "figi (from_figi_data d) = dict_get d ''figipy''
   \<and> (map_of d ''figipy'' = None \<longrightarrow> figi (from_figi_data d) = PNone)
   \<and> security_type' (from_figi_data d) = dict_get d ''securityType''
   \<and> security_type_2' (from_figi_data d) = dict_get d ''securityType2''
   \<and> market_sector (from_figi_data d) = dict_get d ''marketSecDes''
   \<and> exchange_code' (from_figi_data d) = dict_get d ''exchCode''
   \<and> name' (from_figi_data d) = dict_get d ''name''
   \<and> id' (from_figi_data d) = dict_get d ''id''
   \<and> share_class_figi (from_figi_data d) = dict_get d ''shareClassFIGI''
   \<and> composite_figi (from_figi_data d) = dict_get d ''compositeFIGI''
   \<and> security_description (from_figi_data d) = dict_get d ''securityDescription''
   \<and> future_or_option_id (from_figi_data d) = dict_get d ''uniqueIDFutOpt''
   \<and> ticker (from_figi_data d) = PNone
   \<and> metadata (from_figi_data d) = PNone
   \<and> ((\<forall>k \<in> set figi_keys. map_of d k = map_of d' k) \<longrightarrow> from_figi_data d = from_figi_data d')"
  by (simp add: from_figi_data_def dict_get_def figi_keys_def)

theorem from_figi_data_table_witness:
  "figi (from_figi_data [(''figi'', PStr ''BBG000BLNNH6''), (''FIGI'', PStr ''BBG000BLNNH6''),
       (''name'', PStr ''IBM''), (''ticker'', PStr ''IBM'')]) = PNone
   \<and> name' (from_figi_data [(''figi'', PStr ''BBG000BLNNH6''), (''FIGI'', PStr ''BBG000BLNNH6''),
       (''name'', PStr ''IBM''), (''ticker'', PStr ''IBM'')]) = PStr ''IBM''
   \<and> ticker (from_figi_data [(''figi'', PStr ''BBG000BLNNH6''), (''FIGI'', PStr ''BBG000BLNNH6''),
       (''name'', PStr ''IBM''), (''ticker'', PStr ''IBM'')]) = PNone
   \<and> from_figi_data [(''figi'', PStr ''BBG000BLNNH6''), (''FIGI'', PStr ''BBG000BLNNH6''),
       (''name'', PStr ''IBM''), (''ticker'', PStr ''IBM'')] = from_figi_data [(''name'', PStr ''IBM'')]"
  using from_figi_data_table [of "[(''figi'', PStr ''BBG000BLNNH6''), (''FIGI'', PStr ''BBG000BLNNH6''),
       (''name'', PStr ''IBM''), (''ticker'', PStr ''IBM'')]" "[(''name'', PStr ''IBM'')]"]
  by (simp add: figi_keys_def dict_get_def from_figi_data_def)

lemma map_of_filter_not_None:
  "distinct (map fst xs) \<Longrightarrow>
   map_of (filter (\<lambda>(key, value). value \<noteq> PNone) xs) k =
     (case map_of xs k of None \<Rightarrow> None | Some v \<Rightarrow> if v = PNone then None else Some v)"
proof (induction xs)
  case Nil
  then show ?case by simp
next
  case (Cons x xs)
  obtain k' v' where x: "x = (k', v')" by (cases x)
  from Cons.prems x have notin: "k' \<notin> fst ` set xs" by simp
  have "map_of xs k' = None"
    using notin by (simp add: map_of_eq_None_iff)
  with Cons x show ?case by (auto split: option.splits)
qed

lemma filter_no_None:
  "map_of (filter (\<lambda>(key, value). value \<noteq> PNone) xs) k \<noteq> Some PNone"
proof
  assume "map_of (filter (\<lambda>(key, value). value \<noteq> PNone) xs) k = Some PNone"
  then have "(k, PNone) \<in> set (filter (\<lambda>(key, value). value \<noteq> PNone) xs)"
    by (rule map_of_SomeD)
  then show False by simp
qed

lemma as_filter_Inr:
  "as_filter fmt self = Inr m \<Longrightarrow>
   \<exists>es ms. convert_date_range_to_string fmt (expiration self) = Inr es
     \<and> convert_date_range_to_string fmt (maturity self) = Inr ms
     \<and> m = filter (\<lambda>(key, value). value \<noteq> PNone) (filter_items self es ms)"
  unfolding as_filter_def filter_items_def
  by (auto split: sum.splits simp del: filter.simps)

lemma filter_items_keys: "map fst (filter_items self es ms) = wire_keys"
  by (simp add: filter_items_def wire_keys_def)

lemma distinct_wire_keys: "distinct wire_keys"
  by (simp add: wire_keys_def)

lemma lookup_filter_items:
  "map_of (filter (\<lambda>(key, value). value \<noteq> PNone) (filter_items self es ms)) k =
     (case map_of (filter_items self es ms) k of None \<Rightarrow> None | Some v \<Rightarrow> if v = PNone then None else Some v)"
  by (rule map_of_filter_not_None) (simp add: filter_items_keys distinct_wire_keys)

lemma py_str_lookup: "(if py_str x = PNone then None else Some (py_str x)) = map_option PStr x"
  by (cases x) (simp_all add: py_str_def)

lemma py_bool_lookup: "(if py_bool x = PNone then None else Some (py_bool x)) = map_option PBool x"
  by (cases x) (simp_all add: py_bool_def)

lemma py_num_list_lookup:
  "(if py_num_list (convert_number_range_to_string x) = PNone then None
    else Some (py_num_list (convert_number_range_to_string x))) =
   map_option (\<lambda>r. PList [py_num (or_None (fst r)), py_num (or_None (snd r))]) x"
  by (cases x) (auto simp: py_num_list_def convert_number_range_to_string_def)

lemma convert_date_None:
  "convert_date_range_to_string fmt x = Inr es \<Longrightarrow> (es = None) = (x = None)"
  by (auto simp: convert_date_range_to_string_def Let_def split: option.splits sum.splits)

lemma py_str_list_lookup:
  "convert_date_range_to_string fmt x = Inr es \<Longrightarrow>
   ((if py_str_list es = PNone then None else Some (py_str_list es)) = None) = (x = None)"
  by (frule convert_date_None) (cases es; simp add: py_str_list_def)

text \<open>
  Claim C8. Whenever \<^verbatim>\<open>as_filter\<close> returns a mapping, no entry of it is \<^verbatim>\<open>None\<close>, every
  property that is \<^verbatim>\<open>None\<close> has no entry, every property that is set has its entry
  under its wire key (the value itself; for a number range the two-element list; for a
  date range the list of the two formatted dates), and there is no other key. It
  returns a mapping exactly when the conversions of the two date ranges do. With only
  \<^verbatim>\<open>exchange_code="NYSE"\<close> the mapping is \<^verbatim>\<open>{"exchCode": "NYSE"}\<close>, and with nothing set it
  is empty.
\<close>

theorem as_filter_omits_none:
  "(as_filter fmt self = Inr m \<longrightarrow>
      (\<forall>key. map_of m key \<noteq> Some PNone)
      \<and> map_of m ''exchCode'' = map_option PStr (exchange_code self)
      \<and> map_of m ''micCode'' = map_option PStr (mic_code self)
      \<and> map_of m ''currency'' = map_option PStr (currency self)
      \<and> map_of m ''marketSecDes'' = map_option PStr (market_sector_description self)
      \<and> map_of m ''securityType'' = map_option PStr (security_type self)
      \<and> map_of m ''securityType2'' = map_option PStr (security_type_2 self)
      \<and> map_of m ''includeUnlistedEquities'' = map_option PBool (include_unlisted_equities self)
      \<and> map_of m ''optionType'' = map_option PStr (option_type self)
      \<and> map_of m ''strike'' =
          map_option (\<lambda>r. PList [py_num (or_None (fst r)), py_num (or_None (snd r))]) (strike self)
      \<and> map_of m ''contractSize'' =
          map_option (\<lambda>r. PList [py_num (or_None (fst r)), py_num (or_None (snd r))]) (contract_size self)
      \<and> map_of m ''coupon'' =
          map_option (\<lambda>r. PList [py_num (or_None (fst r)), py_num (or_None (snd r))]) (coupon self)
      \<and> (map_of m ''expiration'' = None) = (expiration self = None)
      \<and> (\<forall>ss. convert_date_range_to_string fmt (expiration self) = Inr (Some ss) \<longrightarrow>
            map_of m ''expiration'' = Some (PList (map PStr ss)))
      \<and> (map_of m ''maturity'' = None) = (maturity self = None)
      \<and> (\<forall>ss. convert_date_range_to_string fmt (maturity self) = Inr (Some ss) \<longrightarrow>
            map_of m ''maturity'' = Some (PList (map PStr ss)))
      \<and> map_of m ''stateCode'' = map_option PStr (state_code self)
      \<and> (\<forall>key. key \<notin> set wire_keys \<longrightarrow> map_of m key = None))
   \<and> (\<exists>m. as_filter fmt self = Inr m) =
       ((\<exists>es. convert_date_range_to_string fmt (expiration self) = Inr es)
        \<and> (\<exists>ms. convert_date_range_to_string fmt (maturity self) = Inr ms))
   \<and> as_filter fmt (no_properties\<lparr>exchange_code := Some ''NYSE''\<rparr>) = Inr [(''exchCode'', PStr ''NYSE'')]
   \<and> as_filter fmt no_properties = Inr []"
  (is "(_ \<longrightarrow> ?Q) \<and> ?R \<and> ?S \<and> ?T")
proof -
  have Q: ?Q if "as_filter fmt self = Inr m"
  proof -
    from that obtain es ms
      where es: "convert_date_range_to_string fmt (expiration self) = Inr es"
        and ms: "convert_date_range_to_string fmt (maturity self) = Inr ms"
        and m: "m = filter (\<lambda>(key, value). value \<noteq> PNone) (filter_items self es ms)"
      using as_filter_Inr by blast
    have L: "map_of m k =
        (case map_of (filter_items self es ms) k of None \<Rightarrow> None
         | Some v \<Rightarrow> if v = PNone then None else Some v)" for k
      unfolding m by (rule lookup_filter_items)
    have c0: "\<forall>key. map_of m key \<noteq> Some PNone"
      unfolding m by (simp add: filter_no_None)
    have c1: "map_of m ''exchCode'' = map_option PStr (exchange_code self)"
      by (simp add: L filter_items_def py_str_lookup)
    have c2: "map_of m ''micCode'' = map_option PStr (mic_code self)"
      by (simp add: L filter_items_def py_str_lookup)
    have c3: "map_of m ''currency'' = map_option PStr (currency self)"
      by (simp add: L filter_items_def py_str_lookup)
    have c4: "map_of m ''marketSecDes'' = map_option PStr (market_sector_description self)"
      by (simp add: L filter_items_def py_str_lookup)
    have c5: "map_of m ''securityType'' = map_option PStr (security_type self)"
      by (simp add: L filter_items_def py_str_lookup)
    have c6: "map_of m ''securityType2'' = map_option PStr (security_type_2 self)"
      by (simp add: L filter_items_def py_str_lookup)
    have c7: "map_of m ''includeUnlistedEquities'' = map_option PBool (include_unlisted_equities self)"
      by (simp add: L filter_items_def py_bool_lookup)
    have c8: "map_of m ''optionType'' = map_option PStr (option_type self)"
      by (simp add: L filter_items_def py_str_lookup)
    have c9: "map_of m ''strike'' =
        map_option (\<lambda>r. PList [py_num (or_None (fst r)), py_num (or_None (snd r))]) (strike self)"
      by (simp add: L filter_items_def py_num_list_lookup)
    have c10: "map_of m ''contractSize'' =
        map_option (\<lambda>r. PList [py_num (or_None (fst r)), py_num (or_None (snd r))]) (contract_size self)"
      by (simp add: L filter_items_def py_num_list_lookup)
    have c11: "map_of m ''coupon'' =
        map_option (\<lambda>r. PList [py_num (or_None (fst r)), py_num (or_None (snd r))]) (coupon self)"
      by (simp add: L filter_items_def py_num_list_lookup)
    have c12: "(map_of m ''expiration'' = None) = (expiration self = None)"
      using py_str_list_lookup [OF es] by (simp add: L filter_items_def)
    have c13: "(map_of m ''maturity'' = None) = (maturity self = None)"
      using py_str_list_lookup [OF ms] by (simp add: L filter_items_def)
    have c12': "\<forall>ss. convert_date_range_to_string fmt (expiration self) = Inr (Some ss) \<longrightarrow>
        map_of m ''expiration'' = Some (PList (map PStr ss))"
      using es by (simp add: L filter_items_def py_str_list_def)
    have c13': "\<forall>ss. convert_date_range_to_string fmt (maturity self) = Inr (Some ss) \<longrightarrow>
        map_of m ''maturity'' = Some (PList (map PStr ss))"
      using ms by (simp add: L filter_items_def py_str_list_def)
    have c14: "map_of m ''stateCode'' = map_option PStr (state_code self)"
      by (simp add: L filter_items_def py_str_lookup)
    have c15: "\<forall>key. key \<notin> set wire_keys \<longrightarrow> map_of m key = None"
    proof (intro allI impI)
      fix key assume "key \<notin> set wire_keys"
      moreover have "fst ` set (filter_items self es ms) = set wire_keys"
        using arg_cong [where f = set, OF filter_items_keys [of self es ms]] by simp
      ultimately have "map_of (filter_items self es ms) key = None"
        by (simp add: map_of_eq_None_iff)
      then show "map_of m key = None" by (simp add: L)
    qed
    from c0 c1 c2 c3 c4 c5 c6 c7 c8 c9 c10 c11 c12 c12' c13 c13' c14 c15 show ?thesis
      by (intro conjI)
  qed
  have R: ?R
    unfolding as_filter_def by (auto split: sum.splits simp del: filter.simps)
  have S: ?S
    by (simp add: as_filter_def no_properties_def convert_date_range_to_string_def
        convert_number_range_to_string_def py_str_def py_bool_def py_num_list_def py_str_list_def)
  have T: ?T
    by (simp add: as_filter_def no_properties_def convert_date_range_to_string_def
        convert_number_range_to_string_def py_str_def py_bool_def py_num_list_def py_str_list_def)
  have Q': "as_filter fmt self = Inr m \<longrightarrow> ?Q"
    by (rule impI) (rule Q)
  show ?thesis
    by (rule conjI [OF Q' conjI [OF R conjI [OF S T]]])
qed

lemma option_example_dates:
  "convert_date_range_to_string (strftime False) (Some (Some 737770, None)) = Inr (Some [''2020-12-11'', ''2021-12-10''])"
  by (simp add: convert_date_range_to_string_def timedelta_weeks_def date_add_def MAXORDINAL_def
      DATE_FORMAT_def strftime_defs)

lemma option_example_filter:
  "as_filter (strftime False) option_example =
     Inr [(''securityType2'', PStr ''Option''), (''contractSize'', PList [PNum 100, PNone]),
          (''expiration'', PList [PStr ''2020-12-11'', PStr ''2021-12-10''])]"
  by (simp add: as_filter_def option_example_def no_properties_def option_example_dates
      convert_date_range_to_string_def [of _ None]
      convert_number_range_to_string_def py_str_def py_bool_def py_num_def py_num_list_def py_str_list_def
      or_None_def truthy_opt_def truthy_number_def)

theorem as_filter_omits_none_witness:
  "as_filter (strftime False) option_example =
     Inr [(''securityType2'', PStr ''Option''), (''contractSize'', PList [PNum 100, PNone]),
          (''expiration'', PList [PStr ''2020-12-11'', PStr ''2021-12-10''])]
   \<and> map_of [(''securityType2'', PStr ''Option''), (''contractSize'', PList [PNum 100, PNone]),
          (''expiration'', PList [PStr ''2020-12-11'', PStr ''2021-12-10''])] ''exchCode'' =
       map_option PStr (exchange_code option_example)
   \<and> map_of [(''securityType2'', PStr ''Option''), (''contractSize'', PList [PNum 100, PNone]),
          (''expiration'', PList [PStr ''2020-12-11'', PStr ''2021-12-10''])] ''securityType2'' =
       map_option PStr (security_type_2 option_example)"
proof -
  note t = as_filter_omits_none [of "strftime False" option_example _ , THEN conjunct1, rule_format,
      OF option_example_filter]
  from option_example_filter t [THEN conjunct2, THEN conjunct1]
    t [THEN conjunct2, THEN conjunct2, THEN conjunct2, THEN conjunct2, THEN conjunct2,
       THEN conjunct2, THEN conjunct1]
  show ?thesis by (intro conjI)
qed

section \<open>Properties of the client\<close>

text \<open>
  The session of \<^verbatim>\<open>create_session\<close>: the retrying adapter replaces the one on
  \<^verbatim>\<open>https://\<close>, and the adapter on \<^verbatim>\<open>http://\<close> stays.
\<close>

lemma adapters_create_session:
  "adapters (create_session self) = [(''https://'', retrying self), (''http://'', default_retry)]"
  by (simp add: create_session_def mount_def Session_def retrying_def)

lemma lower_prefixes: "lower ''https://'' = ''https://''" "lower ''http://'' = ''http://''"
  by (simp_all add: lower_def lower_char_def)

lemma get_adapter_create_session:
  "get_adapter (adapters (create_session self)) url =
     (if secure url then Inr (retrying self)
      else if mounted url then Inr default_retry
      else Inl InvalidSchema)"
  by (simp add: adapters_create_session lower_prefixes secure_def mounted_def)

lemma urlopen_passes:
  "status_code x \<notin> set (status_forcelist retries) \<Longrightarrow>
   urlopen retries r (x # xs) S = (Inr x, \<lparr>responses = xs, sent = S @ [r]\<rparr>)"
  by simp

lemma session_request_unmounted:
  "\<not> mounted url \<Longrightarrow>
   session_request (create_session self)
     \<lparr>req_method = method, req_url = url, req_data = data, req_headers = hs\<rparr> net =
   (Inl InvalidSchema, net)"
  by (simp add: session_request_def get_adapter_create_session secure_def mounted_def)

lemma session_request_passes:
  "mounted url \<Longrightarrow> status_code x \<noteq> 429 \<Longrightarrow>
   session_request (create_session self)
     \<lparr>req_method = method, req_url = url, req_data = data, req_headers = hs\<rparr>
     \<lparr>responses = x # xs, sent = S\<rparr> =
   (Inr x, \<lparr>responses = xs,
            sent = S @ [\<lparr>req_method = method, req_url = url, req_data = data, req_headers = hs\<rparr>]\<rparr>)"
  by (simp add: session_request_def get_adapter_create_session retrying_def default_retry_def)

lemma session_request_exhausted:
  "mounted url \<Longrightarrow>
   session_request (create_session self)
     \<lparr>req_method = method, req_url = url, req_data = data, req_headers = hs\<rparr>
     \<lparr>responses = [], sent = S\<rparr> =
   (Inl ConnectionError,
    \<lparr>responses = [],
     sent = S @ [\<lparr>req_method = method, req_url = url, req_data = data, req_headers = hs\<rparr>]\<rparr>)"
  by (simp add: session_request_def get_adapter_create_session)

text \<open>
  Over \<^verbatim>\<open>https\<close> a response with status 429 never comes back from \<^verbatim>\<open>session.request\<close>:
  it is retried, and when the retries are exhausted the call raises \<^verbatim>\<open>RetryError\<close>.
\<close>

lemma urlopen_never_forced:
  "raise_on_status retries \<Longrightarrow> urlopen retries r xs S = (Inr x, net') \<Longrightarrow>
   status_code x \<notin> set (status_forcelist retries)"
proof (induction xs arbitrary: retries S)
  case Nil
  then show ?case by simp
next
  case (Cons y ys)
  show ?case
  proof (cases "status_code y \<in> set (status_forcelist retries)")
    case True
    with Cons.prems
    have "urlopen (retries\<lparr>retry_total := retry_total retries - 1\<rparr>) r ys (S @ [r]) = (Inr x, net')"
      by (auto split: if_splits)
    with Cons.IH [of "retries\<lparr>retry_total := retry_total retries - 1\<rparr>" "S @ [r]"] Cons.prems(1)
    show ?thesis by simp
  next
    case False
    with Cons.prems show ?thesis by auto
  qed
qed

lemma session_request_never_429:
  "secure url \<Longrightarrow>
   session_request (create_session self)
     \<lparr>req_method = method, req_url = url, req_data = data, req_headers = hs\<rparr> net = (Inr x, net') \<Longrightarrow>
   status_code x \<noteq> 429"
  using urlopen_never_forced [of "retrying self" _ "responses net" "sent net" x net']
  by (auto simp: session_request_def get_adapter_create_session retrying_def)

text \<open>
  What \<^verbatim>\<open>_perform_request\<close> makes of a response that \<^verbatim>\<open>session.request\<close> returns: with
  raise-on-error enabled it raises on 429, 413, 403 and every other failure status; with
  it disabled it does not raise, and a failure status gives the empty dictionary.
  \<^verbatim>\<open>search\<close> then yields nothing, and \<^verbatim>\<open>mapping_values\<close> raises \<^verbatim>\<open>KeyError\<close>.
\<close>

lemma perform_request_raising:
  "raise_on_error self \<Longrightarrow>
   session_request (case session of None \<Rightarrow> create_session self | Some s \<Rightarrow> s)
     \<lparr>req_method = method, req_url = url, req_data = data, req_headers = request_headers self\<rparr> net =
     (Inr r, net') \<Longrightarrow>
   perform_request self url method data session net =
     (if status_code r = 429 then Inl RateLimitError
      else if status_code r = 413 then Inl PayloadTooLargeError
      else if status_code r = 403 then Inl AuthenticationError
      else if response_ok r then Inr (json r)
      else Inl HTTPError,
      net')"
  by (simp add: perform_request_def)

lemma perform_request_degrading:
  "\<not> raise_on_error self \<Longrightarrow>
   session_request (case session of None \<Rightarrow> create_session self | Some s \<Rightarrow> s)
     \<lparr>req_method = method, req_url = url, req_data = data, req_headers = request_headers self\<rparr> net =
     (Inr r, net') \<Longrightarrow>
   perform_request self url method data session net =
     (Inr (if response_ok r then json r else []), net')"
  by (simp add: perform_request_def)

lemma perform_request_transport_error:
  "session_request (case session of None \<Rightarrow> create_session self | Some s \<Rightarrow> s)
     \<lparr>req_method = method, req_url = url, req_data = data, req_headers = request_headers self\<rparr> net =
     (Inl e, net') \<Longrightarrow>
   perform_request self url method data session net = (Inl e, net')"
  by (simp add: perform_request_def)

lemma as_filter_no_properties: "as_filter fmt no_properties = Inr []"
  by (simp add: as_filter_def no_properties_def convert_date_range_to_string_def
        convert_number_range_to_string_def py_str_def py_bool_def py_num_list_def py_str_list_def)

lemma search_degrades:
  "\<not> raise_on_error self \<Longrightarrow> \<not> response_ok r \<Longrightarrow> status_code r \<noteq> 429 \<Longrightarrow>
   mounted (api_url self @ ''/v2/search/'') \<Longrightarrow>
   search fmt self query None \<lparr>responses = r # rs, sent = S\<rparr> =
     ([], None,
      \<lparr>responses = rs,
       sent = S @ [\<lparr>req_method = ''POST'', req_url = api_url self @ ''/v2/search/'',
                    req_data = PDict [(''query'', PStr query)],
                    req_headers = request_headers self\<rparr>]\<rparr>)"
  by (simp add: search_def as_filter_no_properties perform_pagination_request_def
      perform_request_degrading session_request_passes pagination_loop.simps)

lemma mapping_values_degrading:
  "\<not> raise_on_error self \<Longrightarrow> \<not> response_ok r \<Longrightarrow> status_code r \<noteq> 429 \<Longrightarrow>
   mounted (api_url self @ ''/v2/mapping/values/'' @ mapping_value v) \<Longrightarrow>
   fst (mapping_values self (Some v) \<lparr>responses = r # rs, sent = S\<rparr>) = Inl KeyError"
  by (simp add: mapping_values_def perform_request_degrading session_request_passes dict_item_def)

lemma example_urls:
  "secure ''https://api.openfigi.com/v2/search/''"
  "secure ''https://api.openfigi.com/v2/mapping/values/idType''"
  "mounted ''https://api.openfigi.com/v2/search/''"
  "mounted ''https://api.openfigi.com/v2/mapping/values/idType''"
  by (simp_all add: secure_def mounted_def startswith_def lower_def lower_char_def)

lemma example_session_429:
  "session_request (create_session (example_api\<lparr>raise_on_error := flag\<rparr>))
     \<lparr>req_method = method, req_url = ''https://api.openfigi.com'' @ path, req_data = data, req_headers = hs\<rparr>
     \<lparr>responses = [\<lparr>status_code = 429, json = []\<rparr>, \<lparr>status_code = 429, json = []\<rparr>,
                   \<lparr>status_code = 429, json = []\<rparr>], sent = []\<rparr> =
   (Inl RetryError,
    \<lparr>responses = [],
     sent = replicate 3 \<lparr>req_method = method, req_url = ''https://api.openfigi.com'' @ path,
                          req_data = data, req_headers = hs\<rparr>\<rparr>)"
  by (simp add: session_request_def get_adapter_create_session secure_def startswith_def lower_def
      lower_char_def retrying_def example_api_def numeral_3_eq_3)

text \<open>
  Claim C6. With raise-on-error disabled the claim has every failure status degrade to an
  empty result, for \<^verbatim>\<open>mapping_values\<close> as for \<^verbatim>\<open>search\<close>, a 429 with retries exhausted
  included. For a client with raise-on-error disabled and two retries, at the service's
  \<^verbatim>\<open>https\<close> address: on a status 500 or 403 \<^verbatim>\<open>_perform_request\<close> does return the empty
  dictionary and \<^verbatim>\<open>search\<close> yields an empty sequence, but \<^verbatim>\<open>mapping_values\<close> indexes the
  dictionary with \<^verbatim>\<open>["values"]\<close> and raises \<^verbatim>\<open>KeyError\<close>. On a 429 the adapter that
  \<^verbatim>\<open>create_session\<close> mounts retries; after the third 429 the retries are exhausted and
  \<^verbatim>\<open>session.request\<close> raises \<^verbatim>\<open>RetryError\<close>, which nothing catches: \<^verbatim>\<open>mapping_values\<close> and
  \<^verbatim>\<open>search\<close> both raise it, and with raise-on-error enabled it is this error, not
  \<^verbatim>\<open>RateLimitError\<close>, that is raised.
\<close>

theorem failure_status_raises:
  "raise_on_error example_api = False
   \<and> mapping_values example_api (Some ID_TYPE)
       \<lparr>responses = [\<lparr>status_code = 500, json = []\<rparr>], sent = []\<rparr>
     = (Inl KeyError,
        \<lparr>responses = [],
         sent = [\<lparr>req_method = ''GET'', req_url = ''https://api.openfigi.com/v2/mapping/values/idType'',
                  req_data = PNone, req_headers = [(''Content-Type'', ''application/json'')]\<rparr>]\<rparr>)
   \<and> fst (mapping_values example_api (Some ID_TYPE)
       \<lparr>responses = [\<lparr>status_code = 403, json = []\<rparr>], sent = []\<rparr>) = Inl KeyError
   \<and> search (strftime False) example_api ''ibm'' None
       \<lparr>responses = [\<lparr>status_code = 500, json = []\<rparr>], sent = []\<rparr>
     = ([], None,
        \<lparr>responses = [],
         sent = [\<lparr>req_method = ''POST'', req_url = ''https://api.openfigi.com/v2/search/'',
                  req_data = PDict [(''query'', PStr ''ibm'')],
                  req_headers = [(''Content-Type'', ''application/json'')]\<rparr>]\<rparr>)
   \<and> mapping_values example_api (Some ID_TYPE)
       \<lparr>responses = [\<lparr>status_code = 429, json = []\<rparr>, \<lparr>status_code = 429, json = []\<rparr>,
                     \<lparr>status_code = 429, json = []\<rparr>], sent = []\<rparr>
     = (Inl RetryError,
        \<lparr>responses = [],
         sent = replicate 3
                 \<lparr>req_method = ''GET'', req_url = ''https://api.openfigi.com/v2/mapping/values/idType'',
                  req_data = PNone, req_headers = [(''Content-Type'', ''application/json'')]\<rparr>\<rparr>)
   \<and> search (strftime False) example_api ''ibm'' None
       \<lparr>responses = [\<lparr>status_code = 429, json = []\<rparr>, \<lparr>status_code = 429, json = []\<rparr>,
                     \<lparr>status_code = 429, json = []\<rparr>], sent = []\<rparr>
     = ([], Some RetryError,
        \<lparr>responses = [],
         sent = replicate 3
                 \<lparr>req_method = ''POST'', req_url = ''https://api.openfigi.com/v2/search/'',
                  req_data = PDict [(''query'', PStr ''ibm'')],
                  req_headers = [(''Content-Type'', ''application/json'')]\<rparr>\<rparr>)
   \<and> fst (mapping_values (example_api\<lparr>raise_on_error := True\<rparr>) (Some ID_TYPE)
       \<lparr>responses = [\<lparr>status_code = 429, json = []\<rparr>, \<lparr>status_code = 429, json = []\<rparr>,
                     \<lparr>status_code = 429, json = []\<rparr>], sent = []\<rparr>) = Inl RetryError"
proof -
  have u: "api_url example_api = ''https://api.openfigi.com''"
    "api_url (example_api\<lparr>raise_on_error := True\<rparr>) = ''https://api.openfigi.com''"
    "\<not> raise_on_error example_api"
    "request_headers example_api = [(''Content-Type'', ''application/json'')]"
    "request_headers (example_api\<lparr>raise_on_error := True\<rparr>) = [(''Content-Type'', ''application/json'')]"
    by (simp_all add: example_api_def request_headers_def)
  have s429: "session_request (create_session (example_api\<lparr>raise_on_error := flag\<rparr>))
     \<lparr>req_method = m, req_url = ''https://api.openfigi.com'' @ path, req_data = d, req_headers = hs\<rparr>
     \<lparr>responses = [\<lparr>status_code = 429, json = []\<rparr>, \<lparr>status_code = 429, json = []\<rparr>,
                   \<lparr>status_code = 429, json = []\<rparr>], sent = []\<rparr> =
   (Inl RetryError,
    \<lparr>responses = [],
     sent = replicate 3 \<lparr>req_method = m, req_url = ''https://api.openfigi.com'' @ path,
                          req_data = d, req_headers = hs\<rparr>\<rparr>)" for flag m path d hs
    by (rule example_session_429)
  have s429': "session_request (create_session example_api)
     \<lparr>req_method = m, req_url = ''https://api.openfigi.com'' @ path, req_data = d, req_headers = hs\<rparr>
     \<lparr>responses = [\<lparr>status_code = 429, json = []\<rparr>, \<lparr>status_code = 429, json = []\<rparr>,
                   \<lparr>status_code = 429, json = []\<rparr>], sent = []\<rparr> =
   (Inl RetryError,
    \<lparr>responses = [],
     sent = replicate 3 \<lparr>req_method = m, req_url = ''https://api.openfigi.com'' @ path,
                          req_data = d, req_headers = hs\<rparr>\<rparr>)" for m path d hs
    using s429 [of False m path d hs] by (simp add: example_api_def)
  have a: "mapping_values example_api (Some ID_TYPE)
       \<lparr>responses = [\<lparr>status_code = 500, json = []\<rparr>], sent = []\<rparr>
     = (Inl KeyError,
        \<lparr>responses = [],
         sent = [\<lparr>req_method = ''GET'', req_url = ''https://api.openfigi.com/v2/mapping/values/idType'',
                  req_data = PNone, req_headers = [(''Content-Type'', ''application/json'')]\<rparr>]\<rparr>)"
    using example_urls
    by (simp add: mapping_values_def u perform_request_degrading session_request_passes
        response_ok_def dict_item_def)
  have b: "fst (mapping_values example_api (Some ID_TYPE)
       \<lparr>responses = [\<lparr>status_code = 403, json = []\<rparr>], sent = []\<rparr>) = Inl KeyError"
    using example_urls
    by (simp add: mapping_values_def u perform_request_degrading session_request_passes
        response_ok_def dict_item_def)
  have c: "search (strftime False) example_api ''ibm'' None
       \<lparr>responses = [\<lparr>status_code = 500, json = []\<rparr>], sent = []\<rparr>
     = ([], None,
        \<lparr>responses = [],
         sent = [\<lparr>req_method = ''POST'', req_url = ''https://api.openfigi.com/v2/search/'',
                  req_data = PDict [(''query'', PStr ''ibm'')],
                  req_headers = [(''Content-Type'', ''application/json'')]\<rparr>]\<rparr>)"
    using example_urls
    by (simp add: search_degrades u response_ok_def)
  have d: "mapping_values example_api (Some ID_TYPE)
       \<lparr>responses = [\<lparr>status_code = 429, json = []\<rparr>, \<lparr>status_code = 429, json = []\<rparr>,
                     \<lparr>status_code = 429, json = []\<rparr>], sent = []\<rparr>
     = (Inl RetryError,
        \<lparr>responses = [],
         sent = replicate 3
                 \<lparr>req_method = ''GET'', req_url = ''https://api.openfigi.com/v2/mapping/values/idType'',
                  req_data = PNone, req_headers = [(''Content-Type'', ''application/json'')]\<rparr>\<rparr>)"
    using s429' [of "''GET''" "''/v2/mapping/values/idType''" PNone "[(''Content-Type'', ''application/json'')]"]
    by (simp add: mapping_values_def perform_request_def u)
  have e: "search (strftime False) example_api ''ibm'' None
       \<lparr>responses = [\<lparr>status_code = 429, json = []\<rparr>, \<lparr>status_code = 429, json = []\<rparr>,
                     \<lparr>status_code = 429, json = []\<rparr>], sent = []\<rparr>
     = ([], Some RetryError,
        \<lparr>responses = [],
         sent = replicate 3
                 \<lparr>req_method = ''POST'', req_url = ''https://api.openfigi.com/v2/search/'',
                  req_data = PDict [(''query'', PStr ''ibm'')],
                  req_headers = [(''Content-Type'', ''application/json'')]\<rparr>\<rparr>)"
    using s429' [of "''POST''" "''/v2/search/''" "PDict [(''query'', PStr ''ibm'')]"
        "[(''Content-Type'', ''application/json'')]"]
    by (simp add: search_def as_filter_no_properties perform_pagination_request_def
        perform_request_def u)
  have f: "fst (mapping_values (example_api\<lparr>raise_on_error := True\<rparr>) (Some ID_TYPE)
       \<lparr>responses = [\<lparr>status_code = 429, json = []\<rparr>, \<lparr>status_code = 429, json = []\<rparr>,
                     \<lparr>status_code = 429, json = []\<rparr>], sent = []\<rparr>) = Inl RetryError"
    using s429 [of True "''GET''" "''/v2/mapping/values/idType''" PNone "[(''Content-Type'', ''application/json'')]"]
    by (simp add: mapping_values_def perform_request_def u)
  from u(3) a b c d e f show ?thesis
    by (intro conjI) simp_all
qed

text \<open>
  Claim C9. The claim has the client use every argument that is given. The constructor
  takes \<^verbatim>\<open>argument or default\<close>: with the class default enabled, \<^verbatim>\<open>raise_on_error=False\<close>
  gives a client that raises, and \<^verbatim>\<open>api_retry_count=0\<close> gives the default count 2.
\<close>

theorem init_falsy_arguments:
  "raise_on_error (init \<lparr>API_KEY = None, API_URL = ''https://api.openfigi.com'',
      API_RAISE_ON_ERROR = True, API_RETRY_COUNT = 2\<rparr> (Some False) None None None) = True
   \<and> api_retry_count (init \<lparr>API_KEY = None, API_URL = ''https://api.openfigi.com'',
      API_RAISE_ON_ERROR = False, API_RETRY_COUNT = 2\<rparr> None None None (Some 0)) = 2"
  by (simp add: init_def py_or_def truthy_bool_def truthy_int_def)

lemma for_each_Inr: "for_each Inr xs = (xs, None)"
  by (induction xs) auto

lemma perform_request_page:
  "mounted url \<Longrightarrow>
   perform_request self url method (PDict data) (Some (create_session self))
       \<lparr>responses = page_response p # rs, sent = S\<rparr> =
     (Inr (page_json p), \<lparr>responses = rs, sent = S @ [make_request self url method data]\<rparr>)"
  by (simp add: perform_request_def session_request_passes page_response_def response_ok_def
      make_request_def)

lemma perform_request_exhausted:
  "mounted url \<Longrightarrow>
   perform_request self url method (PDict data) (Some (create_session self))
       \<lparr>responses = [], sent = S\<rparr> =
     (Inl ConnectionError, \<lparr>responses = [], sent = S @ [make_request self url method data]\<rparr>)"
  by (simp add: perform_request_def session_request_exhausted make_request_def)

lemma perform_request_unmounted:
  "\<not> mounted url \<Longrightarrow>
   perform_request self url method data (Some (create_session self)) net = (Inl InvalidSchema, net)"
  by (simp add: perform_request_def session_request_unmounted)

lemma page_json_data:
  "map_of (page_json p) ''data'' = map_option PList (page_data p)"
  by (auto simp: page_json_def split: option.splits)

lemma page_json_next:
  "map_of (page_json p) ''next'' = page_next p"
  by (auto simp: page_json_def split: option.splits)

lemma loop_stops:
  "\<not> continues p \<Longrightarrow>
   pagination_loop self url method data session Inr (page_json p) net = (page_items p, None, net)"
  by (subst pagination_loop.simps)
     (auto simp: page_json_data page_json_next continues_def page_items_def for_each_Inr
        split: option.splits)

lemma loop_continues:
  "continues p \<Longrightarrow>
   pagination_loop self url method data session Inr (page_json p) net =
     (case perform_request self url method (PDict (dict_with data ''start'' (the (page_next p))))
             (Some session) net of
        (Inl e, net') \<Rightarrow> (page_items p, Some e, net')
      | (Inr response', net') \<Rightarrow>
          (case pagination_loop self url method data session Inr response' net' of
             (zs, raised, net'') \<Rightarrow> (page_items p @ zs, raised, net'')))"
  by (subst pagination_loop.simps)
     (auto simp: page_json_data page_json_next continues_def page_items_def for_each_Inr
        split: option.splits prod.splits sum.splits)

lemma next_request_continues:
  "continues p \<Longrightarrow>
   next_request self url method data p = make_request self url method (dict_with data ''start'' (the (page_next p)))"
  by (auto simp: next_request_def continues_def)

lemma loop_pages:
  "mounted url \<Longrightarrow>
   pagination_loop self url method data (create_session self) Inr (page_json p)
       \<lparr>responses = map page_response ps, sent = S\<rparr> =
     (concat (map page_items (pages_read (p # ps))),
      (if dropWhile continues (p # ps) = [] then Some ConnectionError else None),
      \<lparr>responses = map page_response (drop 1 (dropWhile continues (p # ps))),
       sent = S @ map (next_request self url method data) (takeWhile continues (p # ps))\<rparr>)"
proof (induction ps arbitrary: p S)
  case Nil
  show ?case
  proof (cases "continues p")
    case True
    then show ?thesis
      using Nil.prems
      by (simp add: loop_continues perform_request_exhausted pages_read_def next_request_continues)
  next
    case False
    then show ?thesis by (simp add: loop_stops pages_read_def)
  qed
next
  case (Cons q qs)
  show ?case
  proof (cases "continues p")
    case True
    then show ?thesis
      using Cons.IH [of q "S @ [next_request self url method data p]"] Cons.prems
      by (simp add: loop_continues perform_request_page pages_read_def next_request_continues)
  next
    case False
    then show ?thesis by (simp add: loop_stops pages_read_def)
  qed
qed

lemma pagination_result:
  "mounted url \<Longrightarrow>
   perform_pagination_request self url method data Inr \<lparr>responses = map page_response ps, sent = []\<rparr> =
     (concat (map page_items (pages_read ps)),
      (if dropWhile continues ps = [] then Some ConnectionError else None),
      \<lparr>responses = map page_response (drop 1 (dropWhile continues ps)),
       sent = requests_made self url method data ps\<rparr>)"
proof (cases ps)
  case Nil
  assume "mounted url"
  with Nil show ?thesis
    by (simp add: perform_pagination_request_def perform_request_exhausted pages_read_def requests_made_def)
next
  case (Cons p qs)
  assume "mounted url"
  with Cons show ?thesis
    by (simp add: perform_pagination_request_def perform_request_page loop_pages requests_made_def)
qed

lemma pagination_unmounted:
  "\<not> mounted url \<Longrightarrow>
   perform_pagination_request self url method data consume net = ([], Some InvalidSchema, net)"
  by (simp add: perform_pagination_request_def perform_request_unmounted)

lemma one_request_per_page:
  "dropWhile continues ps \<noteq> [] \<Longrightarrow>
   length (requests_made self url method data ps) = length (pages_read ps)"
  by (cases "dropWhile continues ps") (simp_all add: requests_made_def pages_read_def)

text \<open>
  Claim C1. For every client, request body and list of pages, at a URL the session has
  an adapter for, the paginated request, consumed to its end, yields exactly the
  concatenation of the \<^verbatim>\<open>data\<close> lists of the pages read, in order; it makes the first
  request with the original body and, for each page that continues, one request with
  \<^verbatim>\<open>start\<close> set to that page's cursor; it stops at the first page that does not continue,
  leaving the later responses unread, so that it has made one request per page read.
  (When every page continues, the request after the last one gets no response and the
  iteration ends with that error. At a URL that is neither \<^verbatim>\<open>https\<close> nor \<^verbatim>\<open>http\<close>
  \<^verbatim>\<open>session.request\<close> raises \<^verbatim>\<open>InvalidSchema\<close> and no request is made.) For the pages
  \<^verbatim>\<open>[{data: [a, b], next: "c1"}, {data: [c]}]\<close> the sequence is \<^verbatim>\<open>[a, b, c]\<close> and exactly two
  requests are made.
\<close>

theorem pagination_yields_pages:
  "perform_pagination_request self url method data Inr \<lparr>responses = map page_response ps, sent = []\<rparr> =
     (if mounted url
      then (concat (map page_items (pages_read ps)),
            (if dropWhile continues ps = [] then Some ConnectionError else None),
            \<lparr>responses = map page_response (drop 1 (dropWhile continues ps)),
             sent = requests_made self url method data ps\<rparr>)
      else ([], Some InvalidSchema, \<lparr>responses = map page_response ps, sent = []\<rparr>))
   \<and> (dropWhile continues ps \<noteq> [] \<longrightarrow>
        length (requests_made self url method data ps) = length (pages_read ps))
   \<and> perform_pagination_request self url method data Inr
        \<lparr>responses = [\<lparr>status_code = 200, json = [(''data'', PList [a, b]), (''next'', PStr ''c1'')]\<rparr>,
                      \<lparr>status_code = 200, json = [(''data'', PList [c])]\<rparr>],
         sent = []\<rparr> =
       (if mounted url
        then ([a, b, c], None,
              \<lparr>responses = [],
               sent = [\<lparr>req_method = method, req_url = url, req_data = PDict data,
                        req_headers = request_headers self\<rparr>,
                       \<lparr>req_method = method, req_url = url,
                        req_data = PDict (dict_with data ''start'' (PStr ''c1'')),
                        req_headers = request_headers self\<rparr>]\<rparr>)
        else ([], Some InvalidSchema,
              \<lparr>responses = [\<lparr>status_code = 200, json = [(''data'', PList [a, b]), (''next'', PStr ''c1'')]\<rparr>,
                            \<lparr>status_code = 200, json = [(''data'', PList [c])]\<rparr>],
               sent = []\<rparr>))"
proof (cases "mounted url")
  case True
  let ?p1 = "\<lparr>page_data = Some [a, b], page_next = Some (PStr ''c1'')\<rparr>"
  let ?p2 = "\<lparr>page_data = Some [c], page_next = None\<rparr>"
  have "perform_pagination_request self url method data Inr
          \<lparr>responses = map page_response [?p1, ?p2], sent = []\<rparr> =
        ([a, b, c], None,
         \<lparr>responses = [],
          sent = [make_request self url method data,
                  make_request self url method (dict_with data ''start'' (PStr ''c1''))]\<rparr>)"
    using pagination_result [OF True, of self "method" "data" "[?p1, ?p2]"]
    by (simp add: pages_read_def continues_def page_items_def requests_made_def next_request_def)
  then have example: "perform_pagination_request self url method data Inr
        \<lparr>responses = [\<lparr>status_code = 200, json = [(''data'', PList [a, b]), (''next'', PStr ''c1'')]\<rparr>,
                      \<lparr>status_code = 200, json = [(''data'', PList [c])]\<rparr>],
         sent = []\<rparr> =
       ([a, b, c], None,
        \<lparr>responses = [],
         sent = [\<lparr>req_method = method, req_url = url, req_data = PDict data,
                  req_headers = request_headers self\<rparr>,
                 \<lparr>req_method = method, req_url = url,
                  req_data = PDict (dict_with data ''start'' (PStr ''c1'')),
                  req_headers = request_headers self\<rparr>]\<rparr>)"
    by (simp add: page_response_def page_json_def make_request_def)
  show ?thesis
    using pagination_result [OF True, of self "method" "data" ps]
      one_request_per_page [of ps self url "method" "data"] example True
    by simp
next
  case False
  then show ?thesis
    using one_request_per_page [of ps self url "method" "data"]
    by (simp add: pagination_unmounted)
qed

theorem pagination_yields_pages_witness:
  "perform_pagination_request example_api ''https://api.openfigi.com/v2/search/'' ''POST''
       [(''query'', PStr ''ibm'')] Inr \<lparr>responses = map page_response example_pages, sent = []\<rparr> =
     ([PStr ''a'', PStr ''b'', PStr ''c''], None,
      \<lparr>responses = [\<lparr>status_code = 200, json = [(''data'', PList [PStr ''d''])]\<rparr>],
       sent = [\<lparr>req_method = ''POST'', req_url = ''https://api.openfigi.com/v2/search/'',
                req_data = PDict [(''query'', PStr ''ibm'')],
                req_headers = [(''Content-Type'', ''application/json'')]\<rparr>,
               \<lparr>req_method = ''POST'', req_url = ''https://api.openfigi.com/v2/search/'',
                req_data = PDict [(''query'', PStr ''ibm''), (''start'', PStr ''c1'')],
                req_headers = [(''Content-Type'', ''application/json'')]\<rparr>]\<rparr>)
   \<and> dropWhile continues example_pages \<noteq> []
   \<and> length (requests_made example_api ''https://api.openfigi.com/v2/search/'' ''POST''
         [(''query'', PStr ''ibm'')] example_pages) = 2
   \<and> length (pages_read example_pages) = 2
   \<and> mounted ''https://api.openfigi.com/v2/search/''"
  using pagination_yields_pages [of example_api "''https://api.openfigi.com/v2/search/''" "''POST''"
      "[(''query'', PStr ''ibm'')]" example_pages]
  by (simp add: example_pages_def example_api_def pages_read_def continues_def page_items_def
      requests_made_def next_request_def make_request_def request_headers_def page_response_def
      page_json_def mounted_def startswith_def lower_def lower_char_def)

end
